theory Spec2Isabelle
  imports Complex_Main "HOL-Library.Multiset"
begin

section \<open>The Time Matrix quiz: data\<close>

text \<open>
  The development follows the bilingual version of \<^verbatim>\<open>script.js\<close> (the one
  that declares \<^verbatim>\<open>currentLanguage\<close> and \<^verbatim>\<open>translations\<close>). An activity
  description is either a bare string or an object keyed by language code; a language
  table is a flat object of labels, and a loaded table carries every label the script
  reads.

  Statements that only restyle or relabel the page (animation classes, titles, the
  progress and score counters, the text of the feedback message) are left out; they
  are taken to find their elements. Relabelling from a language table does not throw;
  relabelling from anything else does, see \<open>applyTranslations\<close> below.
\<close>

datatype description = PlainText string | LocalizedText "string \<rightharpoonup> string"

record activity =
  description :: description
  correctQuadrant :: string

type_synonym table = "string \<rightharpoonup> string"

text \<open>
  What the engine writes into the page: the content of \<^verbatim>\<open>currentActivityEl\<close>
  (the untouched markup, an activity text, the load-error box, or the completion
  template with the values of \<^verbatim>\<open>score\<close> and \<^verbatim>\<open>totalActivities\<close> it
  interpolates), the class of \<^verbatim>\<open>feedbackEl\<close>, and whether
  \<^verbatim>\<open>.time-matrix\<close> is displayed. An activity text is \<open>None\<close> where the script
  would assign \<^verbatim>\<open>undefined\<close>.
\<close>

datatype view = Untouched | ActivityShown "string option" | LoadError | GameComplete int nat

datatype feedback = FeedbackHidden | FeedbackSuccess | FeedbackError

datatype js_error = TypeError

section \<open>The percentage of the completion template\<close>

text \<open>
  \<^verbatim>\<open>endGame\<close> interpolates \<^verbatim>\<open>Math.round((score / totalActivities) * 100)\<close>.
  JavaScript numbers are doubles: the quotient is rounded to the nearest double, the
  product with 100 is rounded again, and \<^verbatim>\<open>Math.round\<close> then takes the nearest
  integer, a half upwards. A division by zero gives no error but \<^verbatim>\<open>NaN\<close> or an
  infinity.

  A double has a significand of 53 bits. For a positive number \<open>x\<close> with binary
  exponent \<open>e\<close> (so \<open>2 ^ e \<le> x < 2 ^ (e + 1)\<close>) the doubles around it are the
  multiples of \<open>2 ^ (e - 52)\<close>, and the nearest one is taken, the one with the even
  multiple on a tie. Exponents stay far inside the range of a double for every score
  and total the script can count to, so overflow and subnormal numbers do not arise.

  \<open>bitLength n\<close> is the number of binary digits of \<open>n\<close>. The binary exponent of
  \<open>x \<ge> 1\<close> is that of its integer part, one less than its bit length; for
  \<open>x < 1\<close>, \<open>2 ^ (- k) \<le> x\<close> holds exactly when the integer just below
  \<open>1 / x\<close> rounded up has at most \<open>k\<close> binary digits.
\<close>

datatype js_number = Num int | NaN | PlusInfinity | MinusInfinity

fun bitLength :: "nat \<Rightarrow> nat" where
  "bitLength n = (if n = 0 then 0 else Suc (bitLength (n div 2)))"

declare bitLength.simps [simp del]

definition binaryExponent :: "real \<Rightarrow> int" where
  "binaryExponent x =
     (if 1 \<le> x then int (bitLength (nat \<lfloor>x\<rfloor>)) - 1
      else - int (bitLength (nat \<lceil>1 / x\<rceil> - 1)))"

definition roundHalfEven :: "real \<Rightarrow> int" where
  "roundHalfEven y =
     (let m = \<lfloor>y\<rfloor>; r = y - of_int m
      in if r < 1 / 2 then m
         else if 1 / 2 < r then m + 1
         else if even m then m else m + 1)"

definition toDouble :: "real \<Rightarrow> real" where
  "toDouble x =
     (if x = 0 then 0
      else (let ulp = 2 powi (binaryExponent \<bar>x\<bar> - 52)
            in sgn x * of_int (roundHalfEven (\<bar>x\<bar> / ulp)) * ulp))"

definition accuracy :: "int \<Rightarrow> nat \<Rightarrow> js_number" where
  "accuracy sc tot =
     (if tot = 0 then (if sc = 0 then NaN else if sc > 0 then PlusInfinity else MinusInfinity)
      else Num \<lfloor>toDouble (toDouble (of_int sc / of_nat tot) * 100) + 1 / 2\<rfloor>)"

section \<open>The state of the script\<close>

text \<open>
  The globals of the script, the persisted language preference
  (\<^verbatim>\<open>localStorage.timeMatrixLanguage\<close>), the number of advance callbacks that
  \<^verbatim>\<open>selectQuadrant\<close> has scheduled with \<^verbatim>\<open>setTimeout\<close> and that have not
  fired yet, and the number of calls made to \<^verbatim>\<open>Math.random\<close> so far. The score
  is a JavaScript number that only ever holds small integers, so it is an \<open>int\<close>.
  \<open>accuracyReported\<close> is the percentage \<^verbatim>\<open>endGame\<close> computed for the completion
  template the last time it ran.
\<close>

record game =
  activities :: "activity list"
  shuffledActivities :: "activity list"
  currentActivityIndex :: nat
  score :: int
  totalActivities :: nat
  currentLanguage :: string
  translationsTbl :: "string \<rightharpoonup> table"
  storedLanguage :: "string option"
  pendingAdvances :: nat
  randomCalls :: nat
  currentActivityEl :: view
  feedbackEl :: feedback
  matrixShown :: bool
  accuracyReported :: "js_number option"

definition initialState :: game where
  "initialState = \<lparr> activities = [], shuffledActivities = [], currentActivityIndex = 0,
     score = 0, totalActivities = 0, currentLanguage = ''en'', translationsTbl = Map.empty,
     storedLanguage = None, pendingAdvances = 0, randomCalls = 0,
     currentActivityEl = Untouched, feedbackEl = FeedbackHidden, matrixShown = True,
     accuracyReported = None \<rparr>"

section \<open>The sequencer\<close>

text \<open>
  \<^verbatim>\<open>shuffleArray\<close> copies its argument and shuffles the copy in place. Arrays live
  in a store, addressed by position; \<^verbatim>\<open>[...array]\<close> allocates a new array at the
  next free address. The k-th call of \<^verbatim>\<open>Math.random\<close> returns \<open>rnd k\<close>, a number
  in \<open>[0, 1)\<close>; the product with \<open>i + 1\<close> is taken exactly.
\<close>

type_synonym 'a heap = "'a list list"

definition spread :: "'a heap \<Rightarrow> nat \<Rightarrow> 'a heap \<times> nat" where
  "spread h a = (h @ [h ! a], length h)"

fun fisherYates :: "(nat \<Rightarrow> real) \<Rightarrow> nat \<Rightarrow> nat \<Rightarrow> nat \<Rightarrow> 'a heap \<Rightarrow> 'a heap \<times> nat" where
  "fisherYates rnd c b 0 h = (h, c)"
| "fisherYates rnd c b (Suc k) h =
     (let i = Suc k;
          j = nat \<lfloor>rnd c * real (i + 1)\<rfloor>;
          shuffled = h ! b
      in fisherYates rnd (Suc c) b k (h[b := shuffled[i := shuffled ! j, j := shuffled ! i]]))"

definition shuffleArray :: "(nat \<Rightarrow> real) \<Rightarrow> nat \<Rightarrow> 'a heap \<Rightarrow> nat \<Rightarrow> 'a heap \<times> nat \<times> nat" where
  "shuffleArray rnd c h array =
     (case spread h array of (h1, shuffled) \<Rightarrow>
        (case fisherYates rnd c shuffled (length (h1 ! shuffled) - 1) h1 of
           (h2, c') \<Rightarrow> (h2, shuffled, c')))"

text \<open>
  \<^verbatim>\<open>shuffleArray([...activities])\<close> as the loaders call it: the activities array
  sits alone in the store, is spread once by the caller and once more by
  \<^verbatim>\<open>shuffleArray\<close>; the result is the content of the array returned.
\<close>

definition shuffledCopy :: "(nat \<Rightarrow> real) \<Rightarrow> nat \<Rightarrow> 'a list \<Rightarrow> 'a list \<times> nat" where
  "shuffledCopy rnd c xs =
     (case spread [xs] 0 of (h1, copy) \<Rightarrow>
        (case shuffleArray rnd c h1 copy of (h2, shuffled, c') \<Rightarrow> (h2 ! shuffled, c')))"

section \<open>Content resolution\<close>

text \<open>
  The text that \<^verbatim>\<open>displayActivity\<close> puts on the page: a plain description as it
  is; for an object, \<^verbatim>\<open>description[currentLanguage] || description.en\<close>, where
  \<^verbatim>\<open>||\<close> takes its right operand when the left one is missing or is the empty
  string.
\<close>

definition activityText :: "string \<Rightarrow> description \<Rightarrow> string option" where
  "activityText lang d =
     (case d of
        PlainText s \<Rightarrow> Some s
      | LocalizedText m \<Rightarrow>
          (case m lang of
             Some t \<Rightarrow> if t \<noteq> [] then Some t else m ''en''
           | None \<Rightarrow> m ''en''))"

section \<open>The quiz session\<close>

text \<open>
  The quadrant a click or a key press selects is one of the four codes the page passes.
\<close>

datatype quadrant = Q1 | Q2 | Q3 | Q4

fun quadrantCode :: "quadrant \<Rightarrow> string" where
  "quadrantCode Q1 = ''q1''"
| "quadrantCode Q2 = ''q2''"
| "quadrantCode Q3 = ''q3''"
| "quadrantCode Q4 = ''q4''"

definition endGame :: "game \<Rightarrow> game" where
  "endGame s = s\<lparr> currentActivityEl := GameComplete (score s) (totalActivities s),
                     accuracyReported := Some (accuracy (score s) (totalActivities s)),
                     matrixShown := False \<rparr>"

definition displayActivity :: "nat \<Rightarrow> game \<Rightarrow> game" where
  "displayActivity index s =
     (if index \<ge> length (shuffledActivities s) then endGame s
      else s\<lparr> currentActivityIndex := index,
               currentActivityEl :=
                 ActivityShown (activityText (currentLanguage s)
                                  (description (shuffledActivities s ! index))),
               feedbackEl := FeedbackHidden \<rparr>)"

definition startGame :: "game \<Rightarrow> game" where
  "startGame s = (if length (activities s) = 0 then s else displayActivity 0 s)"

definition updateScore :: "int \<Rightarrow> game \<Rightarrow> game" where
  "updateScore points s = s\<lparr> score := score s + points \<rparr>"

definition showTextFeedback :: "bool \<Rightarrow> game \<Rightarrow> game" where
  "showTextFeedback isCorrect s =
     s\<lparr> feedbackEl := (if isCorrect then FeedbackSuccess else FeedbackError) \<rparr>"

text \<open>
  \<^verbatim>\<open>selectQuadrant\<close> reads \<^verbatim>\<open>shuffledActivities[currentActivityIndex]\<close>; where
  that is \<^verbatim>\<open>undefined\<close>, reading its \<^verbatim>\<open>correctQuadrant\<close> throws. Otherwise the
  call ends by scheduling one advance.
\<close>

definition selectQuadrant :: "quadrant \<Rightarrow> game \<Rightarrow> js_error + game" where
  "selectQuadrant selectedQuadrant s =
     (if currentActivityIndex s < length (shuffledActivities s) then
        (let currentActivity = shuffledActivities s ! currentActivityIndex s;
             isCorrect = (quadrantCode selectedQuadrant = correctQuadrant currentActivity);
             s1 = (if isCorrect then updateScore 1 s else s);
             s2 = showTextFeedback isCorrect s1
         in Inr (s2\<lparr> pendingAdvances := pendingAdvances s2 + 1 \<rparr>))
      else Inl TypeError)"

definition showNextActivity :: "game \<Rightarrow> game" where
  "showNextActivity s =
     (let nextIndex = currentActivityIndex s + 1
      in if nextIndex \<ge> length (shuffledActivities s) then endGame s
         else displayActivity nextIndex s)"

text \<open>One scheduled advance comes due: its callback runs \<^verbatim>\<open>showNextActivity\<close>.\<close>

definition advanceFires :: "game \<Rightarrow> game" where
  "advanceFires s =
     (if pendingAdvances s = 0 then s
      else showNextActivity (s\<lparr> pendingAdvances := pendingAdvances s - 1 \<rparr>))"

definition resetGame :: "game \<Rightarrow> game" where
  "resetGame s = startGame (s\<lparr> score := 0, currentActivityIndex := 0, matrixShown := True \<rparr>)"

definition resetGameToLanguage :: "game \<Rightarrow> game" where
  "resetGameToLanguage s =
     (let s1 = s\<lparr> score := 0, currentActivityIndex := 0, matrixShown := True,
                    feedbackEl := FeedbackHidden \<rparr>
      in if length (activities s1) > 0 then displayActivity 0 s1 else s1)"

text \<open>
  \<^verbatim>\<open>translations\<close> is a plain object: \<^verbatim>\<open>translations[name]\<close> finds the table
  stored under \<open>name\<close>, and for a name with no table it still finds what every object
  inherits from \<^verbatim>\<open>Object.prototype\<close>, a function or an object, which is truthy
  and has none of the labels. The supported languages are the keys that hold a table.
\<close>

definition objectPrototypeNames :: "string list" where
  "objectPrototypeNames =
     [''constructor'', ''toString'', ''toLocaleString'', ''valueOf'', ''hasOwnProperty'',
      ''isPrototypeOf'', ''propertyIsEnumerable'', ''__proto__'', ''__defineGetter__'',
      ''__defineSetter__'', ''__lookupGetter__'', ''__lookupSetter__'']"

datatype property = Missing | Inherited | Own table

definition lookupProperty :: "(string \<rightharpoonup> table) \<Rightarrow> string \<Rightarrow> property" where
  "lookupProperty obj name =
     (case obj name of
        Some t \<Rightarrow> Own t
      | None \<Rightarrow> if name \<in> set objectPrototypeNames then Inherited else Missing)"

text \<open>
  \<^verbatim>\<open>applyTranslations\<close> changes no global. It returns at once when
  \<^verbatim>\<open>translations[currentLanguage]\<close> is missing and relabels the page from a table.
  From an inherited member it reads \<^verbatim>\<open>t.q1Title\<close>, which is \<^verbatim>\<open>undefined\<close>, and
  calling \<^verbatim>\<open>split\<close> on that throws (in \<^verbatim>\<open>updateQuadrantTranslations\<close>). The
  result is the exception thrown, if any.
\<close>

definition applyTranslations :: "game \<Rightarrow> js_error option" where
  "applyTranslations s =
     (case lookupProperty (translationsTbl s) (currentLanguage s) of
        Missing \<Rightarrow> None
      | Inherited \<Rightarrow> Some TypeError
      | Own t \<Rightarrow> None)"

text \<open>
  A call of \<^verbatim>\<open>changeLanguage\<close>: the exception it ends with, if any, and the globals
  it leaves. It returns at once when \<^verbatim>\<open>translations[language]\<close> is falsy; otherwise
  it sets and stores the language before \<^verbatim>\<open>applyTranslations\<close> runs, and resets the
  game after it. \<open>changeLanguage\<close> is the state the call leaves.
\<close>

definition changeLanguageCall :: "string \<Rightarrow> game \<Rightarrow> js_error option \<times> game" where
  "changeLanguageCall language s =
     (if lookupProperty (translationsTbl s) language = Missing then (None, s)
      else (let s1 = s\<lparr> currentLanguage := language, storedLanguage := Some language \<rparr>
            in case applyTranslations s1 of
                 Some err \<Rightarrow> (Some err, s1)
               | None \<Rightarrow> (None, resetGameToLanguage s1)))"

definition changeLanguage :: "string \<Rightarrow> game \<Rightarrow> game" where
  "changeLanguage language s = snd (changeLanguageCall language s)"

section \<open>Loading\<close>

text \<open>
  The random source and the two literals the script falls back to
  (\<^verbatim>\<open>getEmbeddedTranslations()\<close> and the \<^verbatim>\<open>embeddedData.activities\<close> of
  \<^verbatim>\<open>useEmbeddedData\<close>).
\<close>

record env =
  mathRandom :: "nat \<Rightarrow> real"
  embeddedTranslations :: "string \<rightharpoonup> table"
  embeddedData :: "activity list"

text \<open>
  What the fetch of \<^verbatim>\<open>data.json\<close> came to: a parsed \<^verbatim>\<open>activities\<close> array, an
  error whose message contains \<^verbatim>\<open>Failed to fetch\<close> or \<^verbatim>\<open>CORS\<close>, or any
  other error (a bad status, a body without an array).
\<close>

datatype activities_fetch = Fetched "activity list" | FetchBlocked | FetchFailed

datatype translations_fetch = TranslationsFetched "string \<rightharpoonup> table" | TranslationsFailed

definition useEmbeddedData :: "env \<Rightarrow> game \<Rightarrow> game" where
  "useEmbeddedData e s =
     (case shuffledCopy (mathRandom e) (randomCalls s) (embeddedData e) of
        (shuffled, c') \<Rightarrow>
          startGame (s\<lparr> activities := embeddedData e,
                         totalActivities := length (embeddedData e),
                         shuffledActivities := shuffled,
                         randomCalls := c' \<rparr>))"

text \<open>The part of \<^verbatim>\<open>loadActivities\<close> that runs once the fetch has settled.\<close>

definition loadActivities :: "env \<Rightarrow> activities_fetch \<Rightarrow> game \<Rightarrow> game" where
  "loadActivities e outcome s =
     (case outcome of
        Fetched acts \<Rightarrow>
          if length acts = 0 then s\<lparr> currentActivityEl := LoadError \<rparr>
          else (case shuffledCopy (mathRandom e) (randomCalls s) acts of
                  (shuffled, c') \<Rightarrow>
                    startGame (s\<lparr> activities := acts,
                                   totalActivities := length acts,
                                   shuffledActivities := shuffled,
                                   randomCalls := c' \<rparr>))
      | FetchBlocked \<Rightarrow> useEmbeddedData e s
      | FetchFailed \<Rightarrow> s\<lparr> currentActivityEl := LoadError \<rparr>)"

text \<open>
  The part of \<^verbatim>\<open>loadTranslations\<close> that runs once the fetch of
  \<^verbatim>\<open>lang.json\<close> has settled, up to its call of \<^verbatim>\<open>loadActivities\<close>. The
  saved language is tested as \<^verbatim>\<open>changeLanguage\<close> tests its argument. An exception
  of \<^verbatim>\<open>applyTranslations\<close> inside the \<^verbatim>\<open>try\<close> block leads to the
  \<^verbatim>\<open>catch\<close> block, which installs the embedded tables. The function is
  asynchronous: an exception that leaves it reaches no caller.
\<close>

definition loadTranslations :: "env \<Rightarrow> translations_fetch \<Rightarrow> game \<Rightarrow> game" where
  "loadTranslations e outcome s =
     (case outcome of
        TranslationsFetched data \<Rightarrow>
          if data ''en'' = None \<or> data ''pt'' = None
          then s\<lparr> translationsTbl := embeddedTranslations e \<rparr>
          else (let s1 = s\<lparr> translationsTbl := data \<rparr>;
                    s2 = (case storedLanguage s1 of
                            Some savedLanguage \<Rightarrow>
                              if savedLanguage \<noteq> [] \<and> lookupProperty data savedLanguage \<noteq> Missing
                              then s1\<lparr> currentLanguage := savedLanguage \<rparr>
                              else s1\<lparr> currentLanguage := ''en'', storedLanguage := Some ''en'' \<rparr>
                          | None \<Rightarrow> s1\<lparr> currentLanguage := ''en'', storedLanguage := Some ''en'' \<rparr>)
                in case applyTranslations s2 of
                     None \<Rightarrow> s2
                   | Some err \<Rightarrow> s2\<lparr> translationsTbl := embeddedTranslations e \<rparr>)
      | TranslationsFailed \<Rightarrow> s\<lparr> translationsTbl := embeddedTranslations e \<rparr>)"

section \<open>Events\<close>

text \<open>
  The script is single threaded: it reacts to one event at a time, in any order: the
  two fetches settling, a click or key press on a quadrant, a scheduled advance coming
  due, the Play Again button, the language selector. A handler returns the exception
  it ends with, if any, and the globals as it leaves them: \<^verbatim>\<open>selectQuadrant\<close>
  throws before it has assigned anything, \<^verbatim>\<open>changeLanguage\<close> after it has set the
  language.
\<close>

datatype event =
    TranslationsArrive translations_fetch
  | ActivitiesArrive activities_fetch
  | Select quadrant
  | AdvanceFires
  | PlayAgain
  | LanguageChosen string

fun handle :: "env \<Rightarrow> event \<Rightarrow> game \<Rightarrow> js_error option \<times> game" where
  "handle e (TranslationsArrive outcome) s = (None, loadTranslations e outcome s)"
| "handle e (ActivitiesArrive outcome) s = (None, loadActivities e outcome s)"
| "handle e (Select q) s =
     (case selectQuadrant q s of Inl err \<Rightarrow> (Some err, s) | Inr s' \<Rightarrow> (None, s'))"
| "handle e AdvanceFires s = (None, advanceFires s)"
| "handle e PlayAgain s = (None, resetGame s)"
| "handle e (LanguageChosen language) s = changeLanguageCall language s"

fun run :: "env \<Rightarrow> event list \<Rightarrow> game \<Rightarrow> game" where
  "run e [] s = s"
| "run e (ev # evs) s = run e evs (snd (handle e ev s))"

text \<open>Answering each item once and letting its advance fire before the next answer.\<close>

definition answerAndAdvance :: "quadrant list \<Rightarrow> event list" where
  "answerAndAdvance qs = concat (map (\<lambda>q. [Select q, AdvanceFires]) qs)"

text \<open>Event lists made of answers and advances only.\<close>

definition answersAndAdvances :: "event list \<Rightarrow> bool" where
  "answersAndAdvances evs =
     list_all (\<lambda>ev. case ev of Select q \<Rightarrow> True | AdvanceFires \<Rightarrow> True | _ \<Rightarrow> False) evs"

text \<open>
  What holds of the globals in every state the script can reach: the total and the
  shuffled order have the length of the activity list, an advance is pending only when
  activities are loaded, and a completion template on the page was filled in with the
  current, positive total and with the percentage last computed.
\<close>

definition sessionInvariant :: "game \<Rightarrow> bool" where
  "sessionInvariant s =
     (totalActivities s = length (activities s) \<and>
      length (shuffledActivities s) = length (activities s) \<and>
      (pendingAdvances s = 0 \<or> activities s \<noteq> []) \<and>
      (case currentActivityEl s of
         GameComplete sc tot \<Rightarrow>
           tot = totalActivities s \<and> 0 < tot \<and> accuracyReported s = Some (accuracy sc tot)
       | _ \<Rightarrow> True))"

section \<open>A small session to compute with\<close>

text \<open>
  Three activities, one of them bilingual, two language tables, and a random source
  whose first two draws leave every element where it is and whose later draws are 0.
\<close>

definition demoA :: activity where
  "demoA = \<lparr> description = PlainText ''A'', correctQuadrant = ''q1'' \<rparr>"

definition demoB :: activity where
  "demoB = \<lparr> description = LocalizedText [''en'' \<mapsto> ''B'', ''pt'' \<mapsto> ''Bp''],
             correctQuadrant = ''q2'' \<rparr>"

definition demoC :: activity where
  "demoC = \<lparr> description = PlainText ''C'', correctQuadrant = ''q3'' \<rparr>"

definition demoEnv :: env where
  "demoEnv = \<lparr> mathRandom = (\<lambda>k. if k < 2 then 9 / 10 else 0),
               embeddedTranslations = [''en'' \<mapsto> Map.empty, ''pt'' \<mapsto> Map.empty],
               embeddedData = [demoA] \<rparr>"

definition demoSession :: game where
  "demoSession =
     run demoEnv [TranslationsArrive TranslationsFailed,
                  ActivitiesArrive (Fetched [demoA, demoB, demoC])] initialState"

section \<open>The shuffle is a permutation of a copy\<close>

lemma draw_index_le:
  assumes "0 \<le> r" "r < 1"
  shows "nat \<lfloor>r * real (Suc i)\<rfloor> \<le> i"
proof -
  have "r * real (Suc i) < real (Suc i)"
    using assms by simp
  then have "\<lfloor>r * real (Suc i)\<rfloor> < int (Suc i)"
    by (simp add: floor_less_iff)
  then show ?thesis by simp
qed

lemma fisherYates_spec:
  assumes "\<forall>c. 0 \<le> rnd c \<and> rnd c < 1"
  shows "b < length h \<Longrightarrow> k < length (h ! b) \<or> k = 0 \<Longrightarrow>
     fisherYates rnd c b k h = (h', c') \<Longrightarrow>
     length h' = length h \<and> mset (h' ! b) = mset (h ! b) \<and>
     (\<forall>a. a \<noteq> b \<longrightarrow> h' ! a = h ! a) \<and> c' = c + k"
proof (induction k arbitrary: h c)
  case 0
  then show ?case by simp
next
  case (Suc k)
  let ?xs = "h ! b"
  let ?j = "nat \<lfloor>rnd c * real (Suc k + 1)\<rfloor>"
  let ?h1 = "h[b := ?xs[Suc k := ?xs ! ?j, ?j := ?xs ! Suc k]]"
  have i: "Suc k < length ?xs" using Suc.prems(2) by simp
  have "?j \<le> Suc k"
    using draw_index_le [of "rnd c" "Suc k"] assms by simp
  then have j: "?j < length ?xs" using i by simp
  have run: "fisherYates rnd (Suc c) b k ?h1 = (h', c')"
    using Suc.prems(3) by (simp add: Let_def)
  have b1: "b < length ?h1" using Suc.prems(1) by simp
  have at_b: "?h1 ! b = ?xs[Suc k := ?xs ! ?j, ?j := ?xs ! Suc k]"
    using Suc.prems(1) by simp
  have k1: "k < length (?h1 ! b) \<or> k = 0" using i at_b by simp
  have ms: "mset (?h1 ! b) = mset ?xs"
    using at_b mset_swap [OF j i] by simp
  from Suc.IH [OF b1 k1 run]
  have "length h' = length ?h1" "mset (h' ! b) = mset (?h1 ! b)"
    "\<forall>a. a \<noteq> b \<longrightarrow> h' ! a = ?h1 ! a" "c' = Suc c + k"
    by blast+
  then show ?case using ms by simp
qed

text \<open>
  C4. For every array in the store and every random source with values in \<open>[0, 1)\<close>,
  the array that \<^verbatim>\<open>shuffleArray\<close> returns holds the same elements with the same
  multiplicities as its argument, has the same length, is a new array, and the argument
  and every other array that existed before the call are left as they were.
\<close>

theorem shuffleArray_permutation:
  assumes rnd: "\<forall>c. 0 \<le> rnd c \<and> rnd c < 1"
    and a: "array < length h"
    and run: "shuffleArray rnd c h array = (h', shuffled, c')"
  shows "mset (h' ! shuffled) = mset (h ! array) \<and>
         length (h' ! shuffled) = length (h ! array) \<and>
         shuffled \<noteq> array \<and>
         (\<forall>a < length h. h' ! a = h ! a)"
proof -
  let ?h1 = "h @ [h ! array]"
  let ?b = "length h"
  obtain h2 c2 where fy: "fisherYates rnd c ?b (length (?h1 ! ?b) - 1) ?h1 = (h2, c2)"
    by (cases "fisherYates rnd c ?b (length (?h1 ! ?b) - 1) ?h1")
  with run have eqs: "h' = h2" "shuffled = ?b" "c' = c2"
    by (simp_all add: shuffleArray_def spread_def)
  have "length (?h1 ! ?b) - 1 < length (?h1 ! ?b) \<or> length (?h1 ! ?b) - 1 = 0"
    by arith
  from fisherYates_spec [OF rnd _ this fy]
  have ms: "mset (h2 ! ?b) = mset (?h1 ! ?b)"
    and others: "\<forall>a. a \<noteq> ?b \<longrightarrow> h2 ! a = ?h1 ! a"
    by simp_all
  have m: "mset (h' ! shuffled) = mset (h ! array)"
    using ms eqs by simp
  from m have l: "length (h' ! shuffled) = length (h ! array)"
    by (rule mset_eq_length)
  have old: "\<forall>a < length h. h' ! a = h ! a"
    using others eqs by (simp add: nth_append)
  show ?thesis using m l old a eqs by simp
qed

theorem shuffleArray_permutation_witness:
  "(\<forall>c::nat. (0::real) \<le> (\<lambda>k. 0) c \<and> (\<lambda>k. 0) c < (1::real)) \<and>
   (0::nat) < length [[1::nat, 2, 3]] \<and>
   shuffleArray (\<lambda>k. 0) 0 [[1::nat, 2, 3]] 0 = ([[1, 2, 3], [2, 3, 1]], 1, 2) \<and>
   mset (([[1, 2, 3], [2, 3, 1]] :: nat list list) ! 1) = mset ([[1::nat, 2, 3]] ! 0) \<and>
   ([[1, 2, 3], [2, 3, 1]] :: nat list list) ! 0 = [[1::nat, 2, 3]] ! 0"
proof -
  have r: "\<forall>c::nat. (0::real) \<le> (\<lambda>k. 0) c \<and> (\<lambda>k. 0) c < (1::real)" by simp
  have a: "(0::nat) < length [[1::nat, 2, 3]]" by simp
  have run: "shuffleArray (\<lambda>k. 0) 0 [[1::nat, 2, 3]] 0 = ([[1, 2, 3], [2, 3, 1]], 1, 2)"
    by (simp add: shuffleArray_def spread_def Let_def numeral_2_eq_2)
  from shuffleArray_permutation [OF r a run] r a run show ?thesis by simp
qed

section \<open>Evaluating the small session\<close>

lemmas game_defs = loadActivities_def loadTranslations_def useEmbeddedData_def startGame_def
  displayActivity_def endGame_def selectQuadrant_def updateScore_def showTextFeedback_def
  showNextActivity_def advanceFires_def resetGame_def resetGameToLanguage_def changeLanguage_def
  changeLanguageCall_def applyTranslations_def lookupProperty_def objectPrototypeNames_def

lemmas double_simps = accuracy_def toDouble_def binaryExponent_def roundHalfEven_def
  bitLength.simps Let_def

lemma demo_shuffle: "shuffledCopy (mathRandom demoEnv) 0 [x, y, z] = ([x, y, z], 2)"
  by (simp add: demoEnv_def shuffledCopy_def shuffleArray_def spread_def numeral_2_eq_2 Let_def)

lemma demo_reshuffle: "shuffledCopy (mathRandom demoEnv) 2 [x, y, z] = ([y, z, x], 4)"
  by (simp add: demoEnv_def shuffledCopy_def shuffleArray_def spread_def numeral_2_eq_2 Let_def)

lemma demoSession_eq:
  "demoSession =
     \<lparr> activities = [demoA, demoB, demoC], shuffledActivities = [demoA, demoB, demoC],
       currentActivityIndex = 0, score = 0, totalActivities = 3, currentLanguage = ''en'',
       translationsTbl = [''en'' \<mapsto> Map.empty, ''pt'' \<mapsto> Map.empty],
       storedLanguage = None, pendingAdvances = 0, randomCalls = 2,
       currentActivityEl = ActivityShown (Some ''A''), feedbackEl = FeedbackHidden,
       matrixShown = True, accuracyReported = None \<rparr>"
  by (simp add: demoSession_def game_defs demo_shuffle initialState_def activityText_def demoA_def)
    (simp add: demoEnv_def)

section \<open>What each operation does to the score\<close>

lemma score_endGame: "score (endGame s) = score s"
  by (simp add: endGame_def)

lemma score_displayActivity: "score (displayActivity i s) = score s"
  by (simp add: displayActivity_def endGame_def)

lemma score_startGame: "score (startGame s) = score s"
  by (simp add: startGame_def score_displayActivity)

lemma score_showNextActivity: "score (showNextActivity s) = score s"
  by (simp add: showNextActivity_def Let_def score_displayActivity score_endGame)

lemma score_advanceFires: "score (advanceFires s) = score s"
  by (simp add: advanceFires_def score_showNextActivity)

lemma score_resetGame: "score (resetGame s) = 0"
  by (simp add: resetGame_def score_startGame)

lemma score_resetGameToLanguage: "score (resetGameToLanguage s) = 0"
  by (simp add: resetGameToLanguage_def Let_def score_displayActivity)

lemma changeLanguage_no_table:
  "translationsTbl s l = None \<Longrightarrow>
   changeLanguage l s =
     (if l \<in> set objectPrototypeNames
      then s\<lparr> currentLanguage := l, storedLanguage := Some l \<rparr> else s)"
  by (simp add: changeLanguage_def changeLanguageCall_def applyTranslations_def
      lookupProperty_def)

lemma changeLanguage_table:
  "translationsTbl s l \<noteq> None \<Longrightarrow>
   changeLanguage l s =
     resetGameToLanguage (s\<lparr> currentLanguage := l, storedLanguage := Some l \<rparr>)"
  by (auto simp: changeLanguage_def changeLanguageCall_def applyTranslations_def
      lookupProperty_def)

lemma score_changeLanguage:
  "score (changeLanguage l s) = (if translationsTbl s l = None then score s else 0)"
  by (simp add: changeLanguage_no_table changeLanguage_table score_resetGameToLanguage)

lemma score_useEmbeddedData: "score (useEmbeddedData e s) = score s"
  by (simp add: useEmbeddedData_def score_startGame split: prod.splits)

lemma score_loadActivities: "score (loadActivities e outcome s) = score s"
  by (simp add: loadActivities_def score_startGame score_useEmbeddedData
      split: activities_fetch.splits prod.splits)

lemma score_loadTranslations: "score (loadTranslations e outcome s) = score s"
  by (simp add: loadTranslations_def Let_def split: translations_fetch.splits option.splits)

lemma selectQuadrant_active:
  assumes "currentActivityIndex s < length (shuffledActivities s)"
  shows "selectQuadrant q s =
     Inr (s\<lparr> score := score s +
                 (if quadrantCode q = correctQuadrant (shuffledActivities s ! currentActivityIndex s)
                  then 1 else 0),
              feedbackEl :=
                 (if quadrantCode q = correctQuadrant (shuffledActivities s ! currentActivityIndex s)
                  then FeedbackSuccess else FeedbackError),
              pendingAdvances := pendingAdvances s + 1 \<rparr>)"
  using assms by (simp add: selectQuadrant_def Let_def updateScore_def showTextFeedback_def)

text \<open>
  \<^verbatim>\<open>selectQuadrant\<close> is not the only writer of the score: after one correct
  answer the score is 1, and \<^verbatim>\<open>resetGame\<close> sets it back to 0.
\<close>

theorem resetGame_writes_score_counterexample:
  "score (run demoEnv [Select Q1] demoSession) = 1 \<and>
   score (resetGame (run demoEnv [Select Q1] demoSession)) = 0"
  by (simp add: demoSession_eq game_defs Let_def demoA_def)

text \<open>
  C1 (amended). In every state with a current activity, \<^verbatim>\<open>selectQuadrant\<close>
  reports success exactly when the code of the selected quadrant equals the activity's
  \<^verbatim>\<open>correctQuadrant\<close>, and adds 1 to the score then and 0 otherwise. The only
  other writers of the score are the resets, \<^verbatim>\<open>resetGame\<close> and
  \<^verbatim>\<open>resetGameToLanguage\<close> (so a \<^verbatim>\<open>changeLanguage\<close> to a supported language),
  which set it to 0; advancing, displaying, starting, ending, loading and a
  \<^verbatim>\<open>changeLanguage\<close> to an unsupported language leave it as it is.
\<close>

theorem selectQuadrant_scoring:
  assumes "currentActivityIndex s < length (shuffledActivities s)"
  shows "(\<exists>s'. selectQuadrant q s = Inr s' \<and>
            feedbackEl s' =
              (if quadrantCode q = correctQuadrant (shuffledActivities s ! currentActivityIndex s)
               then FeedbackSuccess else FeedbackError) \<and>
            score s' = score s +
              (if quadrantCode q = correctQuadrant (shuffledActivities s ! currentActivityIndex s)
               then 1 else 0)) \<and>
         score (showNextActivity s) = score s \<and>
         score (advanceFires s) = score s \<and>
         score (displayActivity i s) = score s \<and>
         score (startGame s) = score s \<and>
         score (endGame s) = score s \<and>
         score (loadActivities e af s) = score s \<and>
         score (loadTranslations e tf s) = score s \<and>
         (translationsTbl s l = None \<longrightarrow> score (changeLanguage l s) = score s) \<and>
         (translationsTbl s l \<noteq> None \<longrightarrow> score (changeLanguage l s) = 0) \<and>
         score (resetGame s) = 0 \<and>
         score (resetGameToLanguage s) = 0"
proof -
  have "\<exists>s'. selectQuadrant q s = Inr s' \<and>
            feedbackEl s' =
              (if quadrantCode q = correctQuadrant (shuffledActivities s ! currentActivityIndex s)
               then FeedbackSuccess else FeedbackError) \<and>
            score s' = score s +
              (if quadrantCode q = correctQuadrant (shuffledActivities s ! currentActivityIndex s)
               then 1 else 0)"
    by (simp add: selectQuadrant_active [OF assms])
  then show ?thesis
    by (simp add: score_showNextActivity score_advanceFires score_displayActivity
        score_startGame score_endGame score_loadActivities score_loadTranslations
        score_changeLanguage score_resetGame score_resetGameToLanguage)
qed

theorem selectQuadrant_scoring_witness:
  "currentActivityIndex demoSession < length (shuffledActivities demoSession) \<and>
   (\<exists>s'. selectQuadrant Q1 demoSession = Inr s' \<and> feedbackEl s' = FeedbackSuccess \<and>
          score s' = score demoSession + 1) \<and>
   (\<exists>s'. selectQuadrant Q2 demoSession = Inr s' \<and> feedbackEl s' = FeedbackError \<and>
          score s' = score demoSession) \<and>
   translationsTbl demoSession ''xx'' = None \<and>
   score (changeLanguage ''xx'' demoSession) = score demoSession \<and>
   translationsTbl demoSession ''pt'' \<noteq> None \<and>
   score (changeLanguage ''pt'' demoSession) = 0"
proof -
  have a: "currentActivityIndex demoSession < length (shuffledActivities demoSession)"
    by (simp add: demoSession_eq)
  have c1: "quadrantCode Q1 = correctQuadrant (shuffledActivities demoSession ! currentActivityIndex demoSession)"
    by (simp add: demoSession_eq demoA_def)
  have c2: "quadrantCode Q2 \<noteq> correctQuadrant (shuffledActivities demoSession ! currentActivityIndex demoSession)"
    by (simp add: demoSession_eq demoA_def)
  have x: "translationsTbl demoSession ''xx'' = None"
    by (simp add: demoSession_eq)
  have p: "translationsTbl demoSession ''pt'' \<noteq> None"
    by (simp add: demoSession_eq)
  from selectQuadrant_scoring [OF a, of Q1 _ _ _ _ "''xx''"] c1 x
  have 1: "\<exists>s'. selectQuadrant Q1 demoSession = Inr s' \<and> feedbackEl s' = FeedbackSuccess \<and>
          score s' = score demoSession + 1"
    and 2: "score (changeLanguage ''xx'' demoSession) = score demoSession"
    by auto
  from selectQuadrant_scoring [OF a, of Q2 _ _ _ _ "''pt''"] c2 p
  have 3: "\<exists>s'. selectQuadrant Q2 demoSession = Inr s' \<and> feedbackEl s' = FeedbackError \<and>
          score s' = score demoSession"
    and 4: "score (changeLanguage ''pt'' demoSession) = 0"
    by auto
  from a 1 2 3 4 x p show ?thesis by simp
qed

section \<open>Content resolution falls back on a missing or empty entry\<close>




section \<open>Resets keep the order and the pending advances\<close>

lemma displayActivity_in_range:
  "i < length (shuffledActivities s) \<Longrightarrow>
   displayActivity i s =
     s\<lparr> currentActivityIndex := i,
        currentActivityEl :=
          ActivityShown (activityText (currentLanguage s) (description (shuffledActivities s ! i))),
        feedbackEl := FeedbackHidden \<rparr>"
  by (simp add: displayActivity_def)

lemma resetGame_loaded:
  assumes "activities s \<noteq> []" and "shuffledActivities s \<noteq> []"
  shows "resetGame s =
     s\<lparr> score := 0, currentActivityIndex := 0, matrixShown := True,
        currentActivityEl :=
          ActivityShown (activityText (currentLanguage s) (description (shuffledActivities s ! 0))),
        feedbackEl := FeedbackHidden \<rparr>"
  using assms by (simp add: resetGame_def startGame_def displayActivity_in_range)

lemma changeLanguage_loaded:
  assumes "activities s \<noteq> []" and "shuffledActivities s \<noteq> []"
    and "translationsTbl s l \<noteq> None"
  shows "changeLanguage l s =
     s\<lparr> currentLanguage := l, storedLanguage := Some l,
        score := 0, currentActivityIndex := 0, matrixShown := True,
        currentActivityEl :=
          ActivityShown (activityText l (description (shuffledActivities s ! 0))),
        feedbackEl := FeedbackHidden \<rparr>"
proof -
  from assms(3) have "changeLanguage l s =
      resetGameToLanguage (s\<lparr> currentLanguage := l, storedLanguage := Some l \<rparr>)"
    by (rule changeLanguage_table)
  with assms(1,2) show ?thesis
    by (simp add: resetGameToLanguage_def Let_def displayActivity_in_range)
qed

text \<open>
  Neither reset reshuffles. In the small session the order after \<^verbatim>\<open>resetGame\<close> and
  after \<^verbatim>\<open>changeLanguage\<close> is the order before, and \<^verbatim>\<open>Math.random\<close> has not
  been called; the shuffle the loaders make, run afresh at that point, would have given
  another order.
\<close>

theorem reset_keeps_order_counterexample:
  "shuffledActivities (resetGame demoSession) = [demoA, demoB, demoC] \<and>
   shuffledActivities (changeLanguage ''pt'' demoSession) = [demoA, demoB, demoC] \<and>
   randomCalls (resetGame demoSession) = randomCalls demoSession \<and>
   randomCalls (changeLanguage ''pt'' demoSession) = randomCalls demoSession \<and>
   fst (shuffledCopy (mathRandom demoEnv) (randomCalls demoSession) (activities demoSession))
     = [demoB, demoC, demoA] \<and>
   shuffledActivities (resetGame demoSession)
     \<noteq> fst (shuffledCopy (mathRandom demoEnv) (randomCalls demoSession) (activities demoSession))"
  by (simp add: demoSession_eq game_defs Let_def demo_reshuffle demoA_def demoB_def)

text \<open>
  C3 (amended). With activities loaded, both \<^verbatim>\<open>resetGame\<close> and a
  \<^verbatim>\<open>changeLanguage\<close> to a supported language set the score and the position to 0
  and show the first item of the order again, with the matrix visible; the language
  change shows it in the new language. Neither of them changes
  \<^verbatim>\<open>shuffledActivities\<close> or draws a random number: the session keeps the order made
  when the activities were loaded.
\<close>

theorem reset_restarts_same_order:
  assumes "activities s \<noteq> []" and "shuffledActivities s \<noteq> []"
  shows "score (resetGame s) = 0 \<and> currentActivityIndex (resetGame s) = 0 \<and>
         currentActivityEl (resetGame s) =
           ActivityShown (activityText (currentLanguage s) (description (shuffledActivities s ! 0))) \<and>
         matrixShown (resetGame s) \<and>
         shuffledActivities (resetGame s) = shuffledActivities s \<and>
         randomCalls (resetGame s) = randomCalls s \<and>
         (translationsTbl s l \<noteq> None \<longrightarrow>
            currentLanguage (changeLanguage l s) = l \<and>
            score (changeLanguage l s) = 0 \<and> currentActivityIndex (changeLanguage l s) = 0 \<and>
            currentActivityEl (changeLanguage l s) =
              ActivityShown (activityText l (description (shuffledActivities s ! 0))) \<and>
            matrixShown (changeLanguage l s) \<and>
            shuffledActivities (changeLanguage l s) = shuffledActivities s \<and>
            randomCalls (changeLanguage l s) = randomCalls s)"
  by (simp add: resetGame_loaded [OF assms] changeLanguage_loaded [OF assms])

theorem reset_restarts_same_order_witness:
  "activities (run demoEnv [Select Q1, AdvanceFires, Select Q1, AdvanceFires] demoSession) \<noteq> [] \<and>
   shuffledActivities (run demoEnv [Select Q1, AdvanceFires, Select Q1, AdvanceFires] demoSession) \<noteq> [] \<and>
   translationsTbl (run demoEnv [Select Q1, AdvanceFires, Select Q1, AdvanceFires] demoSession) ''pt'' \<noteq> None \<and>
   currentActivityIndex (run demoEnv [Select Q1, AdvanceFires, Select Q1, AdvanceFires] demoSession) = 2 \<and>
   score (run demoEnv [Select Q1, AdvanceFires, Select Q1, AdvanceFires] demoSession) = 1 \<and>
   score (resetGame (run demoEnv [Select Q1, AdvanceFires, Select Q1, AdvanceFires] demoSession)) = 0 \<and>
   currentActivityIndex (changeLanguage ''pt''
     (run demoEnv [Select Q1, AdvanceFires, Select Q1, AdvanceFires] demoSession)) = 0 \<and>
   score (changeLanguage ''pt''
     (run demoEnv [Select Q1, AdvanceFires, Select Q1, AdvanceFires] demoSession)) = 0 \<and>
   shuffledActivities (changeLanguage ''pt''
     (run demoEnv [Select Q1, AdvanceFires, Select Q1, AdvanceFires] demoSession)) = [demoA, demoB, demoC]"
proof -
  let ?s = "run demoEnv [Select Q1, AdvanceFires, Select Q1, AdvanceFires] demoSession"
  have s: "?s = demoSession\<lparr> score := 1, currentActivityIndex := 2,
                   currentActivityEl := ActivityShown (Some ''C'') \<rparr>"
    by (simp add: demoSession_eq game_defs Let_def demoA_def demoB_def demoC_def activityText_def)
  have a: "activities ?s \<noteq> []" and b: "shuffledActivities ?s \<noteq> []"
    and p: "translationsTbl ?s ''pt'' \<noteq> None"
    and i: "currentActivityIndex ?s = 2" and sc: "score ?s = 1"
    and o: "shuffledActivities ?s = [demoA, demoB, demoC]"
    unfolding s by (simp_all add: demoSession_eq)
  from reset_restarts_same_order [OF a b, of "''pt''"] p a b i sc o
  show ?thesis by simp
qed

section \<open>An unsupported language\<close>

text \<open>
  For a language code that \<^verbatim>\<open>translations\<close> neither holds nor inherits, the call
  changes nothing and throws nothing.
\<close>

lemma changeLanguageCall_missing:
  assumes "translationsTbl s language = None" and "language \<notin> set objectPrototypeNames"
  shows "changeLanguageCall language s = (None, s)"
  using assms by (simp add: changeLanguageCall_def lookupProperty_def)

text \<open>
  C7. The guard of \<^verbatim>\<open>changeLanguage\<close> is meant to turn away every language without
  a table, and does so for a code such as \<^verbatim>\<open>xx\<close>. It lets through the names that
  every object inherits. In the small session, after one answer and its advance
  (position 1, score 1, language \<^verbatim>\<open>en\<close>), \<^verbatim>\<open>changeLanguage('constructor')\<close> finds
  no table, but it makes \<^verbatim>\<open>constructor\<close> the active language, stores it as the
  preference and ends with a \<^verbatim>\<open>TypeError\<close>; the game is not reset.
\<close>

theorem changeLanguage_inherited_name:
  "translationsTbl (run demoEnv [Select Q1, AdvanceFires] demoSession) ''constructor'' = None \<and>
   currentLanguage (run demoEnv [Select Q1, AdvanceFires] demoSession) = ''en'' \<and>
   changeLanguageCall ''constructor'' (run demoEnv [Select Q1, AdvanceFires] demoSession) =
     (Some TypeError,
      (run demoEnv [Select Q1, AdvanceFires] demoSession)
        \<lparr> currentLanguage := ''constructor'', storedLanguage := Some ''constructor'' \<rparr>) \<and>
   changeLanguageCall ''xx'' (run demoEnv [Select Q1, AdvanceFires] demoSession) =
     (None, run demoEnv [Select Q1, AdvanceFires] demoSession)"
proof -
  let ?s = "run demoEnv [Select Q1, AdvanceFires] demoSession"
  have s: "?s = demoSession\<lparr> score := 1, currentActivityIndex := 1,
                   currentActivityEl := ActivityShown (Some ''B'') \<rparr>"
    by (simp add: demoSession_eq game_defs Let_def demoA_def demoB_def activityText_def)
  show ?thesis
    unfolding s
    by (simp add: demoSession_eq changeLanguageCall_def applyTranslations_def
        lookupProperty_def objectPrototypeNames_def)
qed

section \<open>Answering outside an active session\<close>

text \<open>
  C8. Nothing in \<^verbatim>\<open>selectQuadrant\<close> or in the key listener asks whether a session
  is active. Before any content is loaded the call throws a \<^verbatim>\<open>TypeError\<close>; but
  once the small session is complete (three answers, three advances, the completion
  template on the page and the matrix hidden), one more answer evaluates the last
  activity again: the score goes from 3 to 4 out of 3 activities, success is reported
  and another advance is scheduled.
\<close>

theorem selectQuadrant_after_completion:
  "currentActivityEl (run demoEnv (answerAndAdvance [Q1, Q2, Q3]) demoSession) = GameComplete 3 3 \<and>
   matrixShown (run demoEnv (answerAndAdvance [Q1, Q2, Q3]) demoSession) = False \<and>
   pendingAdvances (run demoEnv (answerAndAdvance [Q1, Q2, Q3]) demoSession) = 0 \<and>
   selectQuadrant Q3 (run demoEnv (answerAndAdvance [Q1, Q2, Q3]) demoSession) =
     Inr ((run demoEnv (answerAndAdvance [Q1, Q2, Q3]) demoSession)
            \<lparr> score := 4, feedbackEl := FeedbackSuccess, pendingAdvances := 1 \<rparr>) \<and>
   selectQuadrant Q3 initialState = Inl TypeError"
proof -
  let ?s = "run demoEnv (answerAndAdvance [Q1, Q2, Q3]) demoSession"
  have s: "?s = demoSession\<lparr> score := 3, currentActivityIndex := 2,
                   currentActivityEl := GameComplete 3 3, feedbackEl := FeedbackSuccess,
                   matrixShown := False, accuracyReported := Some (accuracy 3 3) \<rparr>"
    by (simp add: answerAndAdvance_def demoSession_eq game_defs Let_def
        demoA_def demoB_def demoC_def activityText_def)
  have "selectQuadrant Q3 initialState = Inl TypeError"
    by (simp add: selectQuadrant_def initialState_def)
  then show ?thesis
    unfolding s by (simp add: demoSession_eq selectQuadrant_def Let_def updateScore_def
        showTextFeedback_def demoC_def)
qed

section \<open>Advances are never cancelled\<close>

lemma pendingAdvances_displayActivity:
  "pendingAdvances (displayActivity i s) = pendingAdvances s"
  by (simp add: displayActivity_def endGame_def)

lemma pendingAdvances_resetGame: "pendingAdvances (resetGame s) = pendingAdvances s"
  by (simp add: resetGame_def startGame_def pendingAdvances_displayActivity)

lemma pendingAdvances_changeLanguage:
  "pendingAdvances (changeLanguage l s) = pendingAdvances s"
  by (cases "translationsTbl s l = None")
     (simp_all add: changeLanguage_no_table changeLanguage_table resetGameToLanguage_def
        Let_def pendingAdvances_displayActivity)

lemma advanceFires_at_first:
  assumes "pendingAdvances s > 0" and "currentActivityIndex s = 0"
  shows "2 \<le> length (shuffledActivities s) \<Longrightarrow>
           advanceFires s = s\<lparr> pendingAdvances := pendingAdvances s - 1, currentActivityIndex := 1,
             currentActivityEl := ActivityShown (activityText (currentLanguage s)
                                    (description (shuffledActivities s ! 1))),
             feedbackEl := FeedbackHidden \<rparr>"
    and "length (shuffledActivities s) = 1 \<Longrightarrow>
           advanceFires s = s\<lparr> pendingAdvances := pendingAdvances s - 1,
             currentActivityEl := GameComplete (score s) (totalActivities s),
             accuracyReported := Some (accuracy (score s) (totalActivities s)),
             matrixShown := False \<rparr>"
  using assms
  by (simp_all add: advanceFires_def showNextActivity_def Let_def displayActivity_def endGame_def)

text \<open>
  An advance scheduled before a reset fires in the session the reset starts: after
  \<^verbatim>\<open>resetGame\<close> or a language change the position is 0, and the old callback moves
  it to 1.
\<close>

theorem stale_advance_counterexample:
  "pendingAdvances (run demoEnv [Select Q1] demoSession) = 1 \<and>
   currentActivityIndex (run demoEnv [Select Q1, PlayAgain] demoSession) = 0 \<and>
   currentActivityIndex (run demoEnv [Select Q1, PlayAgain, AdvanceFires] demoSession) = 1 \<and>
   currentActivityIndex (run demoEnv [Select Q1, LanguageChosen ''pt''] demoSession) = 0 \<and>
   currentActivityIndex (run demoEnv [Select Q1, LanguageChosen ''pt'', AdvanceFires] demoSession) = 1"
  by (simp add: demoSession_eq game_defs Let_def demoA_def)

text \<open>
  C9 (amended). A reset does not cancel or mark the advances that are pending:
  \<^verbatim>\<open>resetGame\<close> and \<^verbatim>\<open>changeLanguage\<close> leave their number as it is. When an
  advance scheduled before the reset fires afterwards, it runs \<^verbatim>\<open>showNextActivity\<close>
  on the new session: with two or more activities the position goes from the first item
  to the second, so the first item is passed over unanswered; with a single
  activity the game ends with score 0.
\<close>

theorem stale_advance_moves_new_session:
  assumes "activities s \<noteq> []"
    and "length (shuffledActivities s) = length (activities s)"
    and "pendingAdvances s > 0"
  shows "pendingAdvances (resetGame s) = pendingAdvances s \<and>
         pendingAdvances (changeLanguage l s) = pendingAdvances s \<and>
         currentActivityIndex (resetGame s) = 0 \<and>
         (2 \<le> length (activities s) \<longrightarrow>
            currentActivityIndex (advanceFires (resetGame s)) = 1 \<and>
            currentActivityEl (advanceFires (resetGame s)) =
              ActivityShown (activityText (currentLanguage s)
                               (description (shuffledActivities s ! 1)))) \<and>
         (length (activities s) = 1 \<longrightarrow>
            currentActivityEl (advanceFires (resetGame s)) = GameComplete 0 (totalActivities s)) \<and>
         (translationsTbl s l \<noteq> None \<longrightarrow>
            currentActivityIndex (changeLanguage l s) = 0 \<and>
            (2 \<le> length (activities s) \<longrightarrow>
               currentActivityIndex (advanceFires (changeLanguage l s)) = 1 \<and>
               currentActivityEl (advanceFires (changeLanguage l s)) =
                 ActivityShown (activityText l (description (shuffledActivities s ! 1)))) \<and>
            (length (activities s) = 1 \<longrightarrow>
               currentActivityEl (advanceFires (changeLanguage l s)) =
                 GameComplete 0 (totalActivities s)))"
proof -
  have ne: "shuffledActivities s \<noteq> []" using assms(1,2) by auto
  note r = resetGame_loaded [OF assms(1) ne]
  let ?r = "resetGame s"
  have rp: "pendingAdvances ?r > 0" and ri: "currentActivityIndex ?r = 0"
    and rl: "length (shuffledActivities ?r) = length (activities s)"
    using assms(2,3) by (simp_all add: r)
  have A: "2 \<le> length (activities s) \<longrightarrow>
            currentActivityIndex (advanceFires ?r) = 1 \<and>
            currentActivityEl (advanceFires ?r) =
              ActivityShown (activityText (currentLanguage s)
                               (description (shuffledActivities s ! 1)))"
    using advanceFires_at_first(1) [OF rp ri] rl by (simp add: r)
  have B: "length (activities s) = 1 \<longrightarrow>
            currentActivityEl (advanceFires ?r) = GameComplete 0 (totalActivities s)"
    using advanceFires_at_first(2) [OF rp ri] rl by (simp add: r)
  have C: "translationsTbl s l \<noteq> None \<longrightarrow>
            currentActivityIndex (changeLanguage l s) = 0 \<and>
            (2 \<le> length (activities s) \<longrightarrow>
               currentActivityIndex (advanceFires (changeLanguage l s)) = 1 \<and>
               currentActivityEl (advanceFires (changeLanguage l s)) =
                 ActivityShown (activityText l (description (shuffledActivities s ! 1)))) \<and>
            (length (activities s) = 1 \<longrightarrow>
               currentActivityEl (advanceFires (changeLanguage l s)) =
                 GameComplete 0 (totalActivities s))"
  proof
    assume t: "translationsTbl s l \<noteq> None"
    note c = changeLanguage_loaded [OF assms(1) ne t]
    let ?c = "changeLanguage l s"
    have cp: "pendingAdvances ?c > 0" and ci: "currentActivityIndex ?c = 0"
      and cl: "length (shuffledActivities ?c) = length (activities s)"
      using assms(2,3) by (simp_all add: c)
    show "currentActivityIndex ?c = 0 \<and>
            (2 \<le> length (activities s) \<longrightarrow>
               currentActivityIndex (advanceFires ?c) = 1 \<and>
               currentActivityEl (advanceFires ?c) =
                 ActivityShown (activityText l (description (shuffledActivities s ! 1)))) \<and>
            (length (activities s) = 1 \<longrightarrow>
               currentActivityEl (advanceFires ?c) = GameComplete 0 (totalActivities s))"
      using advanceFires_at_first(1) [OF cp ci] advanceFires_at_first(2) [OF cp ci] cl ci
      by (simp add: c)
  qed
  show ?thesis
    using A B C ri by (simp add: pendingAdvances_resetGame pendingAdvances_changeLanguage)
qed

theorem stale_advance_moves_new_session_witness:
  "activities (run demoEnv [Select Q1] demoSession) \<noteq> [] \<and>
   length (shuffledActivities (run demoEnv [Select Q1] demoSession))
     = length (activities (run demoEnv [Select Q1] demoSession)) \<and>
   pendingAdvances (run demoEnv [Select Q1] demoSession) > 0 \<and>
   2 \<le> length (activities (run demoEnv [Select Q1] demoSession)) \<and>
   translationsTbl (run demoEnv [Select Q1] demoSession) ''pt'' \<noteq> None \<and>
   pendingAdvances (resetGame (run demoEnv [Select Q1] demoSession)) = 1 \<and>
   currentActivityIndex (advanceFires (resetGame (run demoEnv [Select Q1] demoSession))) = 1 \<and>
   currentActivityEl (advanceFires (changeLanguage ''pt'' (run demoEnv [Select Q1] demoSession)))
     = ActivityShown (Some ''Bp'')"
proof -
  let ?s = "run demoEnv [Select Q1] demoSession"
  have s: "?s = demoSession\<lparr> score := 1, feedbackEl := FeedbackSuccess, pendingAdvances := 1 \<rparr>"
    by (simp add: demoSession_eq game_defs Let_def demoA_def)
  have a: "activities ?s \<noteq> []"
    and b: "length (shuffledActivities ?s) = length (activities ?s)"
    and p: "pendingAdvances ?s > 0"
    and n: "2 \<le> length (activities ?s)"
    and t: "translationsTbl ?s ''pt'' \<noteq> None"
    and p1: "pendingAdvances ?s = 1"
    and sh: "shuffledActivities ?s ! 1 = demoB"
    unfolding s by (simp_all add: demoSession_eq)
  have bp: "activityText ''pt'' (description demoB) = Some ''Bp''"
    by (simp add: activityText_def demoB_def)
  from stale_advance_moves_new_session [OF a b p, of "''pt''"] a b p n t p1 sh bp
  show ?thesis by simp
qed

section \<open>Runs of events\<close>

lemma run_append: "run e (xs @ ys) s = run e ys (run e xs s)"
  by (induction xs arbitrary: s) simp_all

lemma advanceFires_in_range:
  assumes "pendingAdvances s > 0" and "Suc (currentActivityIndex s) < length (shuffledActivities s)"
  shows "advanceFires s =
     s\<lparr> pendingAdvances := pendingAdvances s - 1,
        currentActivityIndex := Suc (currentActivityIndex s),
        currentActivityEl :=
          ActivityShown (activityText (currentLanguage s)
                           (description (shuffledActivities s ! Suc (currentActivityIndex s)))),
        feedbackEl := FeedbackHidden \<rparr>"
  using assms
  by (simp add: advanceFires_def showNextActivity_def Let_def displayActivity_def)

lemma advanceFires_at_end:
  assumes "pendingAdvances s > 0" and "\<not> Suc (currentActivityIndex s) < length (shuffledActivities s)"
  shows "advanceFires s =
     s\<lparr> pendingAdvances := pendingAdvances s - 1,
        currentActivityEl := GameComplete (score s) (totalActivities s),
        accuracyReported := Some (accuracy (score s) (totalActivities s)),
        matrixShown := False \<rparr>"
  using assms
  by (simp add: advanceFires_def showNextActivity_def Let_def endGame_def)

text \<open>Answering the displayed item several times in a row.\<close>

lemma run_selects:
  assumes "currentActivityIndex s < length (shuffledActivities s)"
  shows "shuffledActivities (run e (map Select qs) s) = shuffledActivities s \<and>
         currentActivityIndex (run e (map Select qs) s) = currentActivityIndex s \<and>
         currentLanguage (run e (map Select qs) s) = currentLanguage s \<and>
         totalActivities (run e (map Select qs) s) = totalActivities s \<and>
         currentActivityEl (run e (map Select qs) s) = currentActivityEl s \<and>
         pendingAdvances (run e (map Select qs) s) = pendingAdvances s + length qs \<and>
         score (run e (map Select qs) s) =
           score s + int (length (filter (\<lambda>q. quadrantCode q =
             correctQuadrant (shuffledActivities s ! currentActivityIndex s)) qs))"
  using assms
proof (induction qs arbitrary: s)
  case Nil
  then show ?case by simp
next
  case (Cons q qs)
  let ?s1 = "s\<lparr> score := score s +
                 (if quadrantCode q = correctQuadrant (shuffledActivities s ! currentActivityIndex s)
                  then 1 else 0),
              feedbackEl :=
                 (if quadrantCode q = correctQuadrant (shuffledActivities s ! currentActivityIndex s)
                  then FeedbackSuccess else FeedbackError),
              pendingAdvances := pendingAdvances s + 1 \<rparr>"
  have step: "run e (map Select (q # qs)) s = run e (map Select qs) ?s1"
    by (simp add: selectQuadrant_active [OF Cons.prems])
  have "currentActivityIndex ?s1 < length (shuffledActivities ?s1)"
    using Cons.prems by simp
  from Cons.IH [OF this] show ?case
    unfolding step by simp
qed

text \<open>Letting \<open>j\<close> pending advances fire one after the other.\<close>

lemma run_fires:
  assumes "currentActivityIndex s < length (shuffledActivities s)"
    and "j \<le> pendingAdvances s"
  shows "shuffledActivities (run e (replicate j AdvanceFires) s) = shuffledActivities s \<and>
         currentLanguage (run e (replicate j AdvanceFires) s) = currentLanguage s \<and>
         totalActivities (run e (replicate j AdvanceFires) s) = totalActivities s \<and>
         score (run e (replicate j AdvanceFires) s) = score s \<and>
         pendingAdvances (run e (replicate j AdvanceFires) s) = pendingAdvances s - j \<and>
         currentActivityIndex (run e (replicate j AdvanceFires) s) =
           min (currentActivityIndex s + j) (length (shuffledActivities s) - 1) \<and>
         currentActivityEl (run e (replicate j AdvanceFires) s) =
           (if j = 0 then currentActivityEl s
            else if currentActivityIndex s + j < length (shuffledActivities s)
            then ActivityShown (activityText (currentLanguage s)
                   (description (shuffledActivities s ! (currentActivityIndex s + j))))
            else GameComplete (score s) (totalActivities s))"
  using assms
proof (induction j)
  case 0
  then show ?case by simp
next
  case (Suc j)
  let ?t = "run e (replicate j AdvanceFires) s"
  have "replicate (Suc j) AdvanceFires = replicate j AdvanceFires @ [AdvanceFires]"
    by (simp add: replicate_append_same)
  then have split: "run e (replicate (Suc j) AdvanceFires) s = advanceFires ?t"
    by (simp only: run_append run.simps handle.simps snd_conv)
  have jp: "j \<le> pendingAdvances s" using Suc.prems(2) by simp
  note ih = Suc.IH [OF Suc.prems(1) jp]
  have pt: "pendingAdvances ?t > 0" using ih Suc.prems(2) by simp
  have ix: "currentActivityIndex ?t =
      min (currentActivityIndex s + j) (length (shuffledActivities s) - 1)"
    and sh: "shuffledActivities ?t = shuffledActivities s"
    using ih by simp_all
  show ?case
  proof (cases "Suc (currentActivityIndex ?t) < length (shuffledActivities ?t)")
    case True
    then have inr: "currentActivityIndex s + Suc j < length (shuffledActivities s)"
      unfolding ix sh by arith
    then have it: "currentActivityIndex ?t = currentActivityIndex s + j"
      unfolding ix by arith
    show ?thesis
      unfolding split advanceFires_in_range [OF pt True]
      using ih inr it Suc.prems(2) by simp
  next
    case False
    then have out: "\<not> currentActivityIndex s + Suc j < length (shuffledActivities s)"
      unfolding ix sh using Suc.prems(1) by arith
    have it: "currentActivityIndex ?t = length (shuffledActivities s) - 1"
      unfolding ix using out Suc.prems(1) by arith
    show ?thesis
      unfolding split advanceFires_at_end [OF pt False]
      using ih out it Suc.prems by (simp add: min_def)
  qed
qed


section \<open>Several answers to one item\<close>

text \<open>
  A call before any content is loaded throws and schedules nothing. And an item reached
  by a surplus advance is put on the page: after two answers to the first item of the
  small session, the first advance displays the second item, and the next advance
  replaces it by the third.
\<close>

theorem repeated_answers_counterexample:
  "selectQuadrant Q1 initialState = Inl TypeError \<and>
   currentActivityEl (run demoEnv [Select Q1, Select Q1, AdvanceFires] demoSession)
     = ActivityShown (Some ''B'') \<and>
   currentActivityIndex (run demoEnv [Select Q1, Select Q1, AdvanceFires, AdvanceFires] demoSession) = 2 \<and>
   currentActivityEl (run demoEnv [Select Q1, Select Q1, AdvanceFires, AdvanceFires] demoSession)
     = ActivityShown (Some ''C'')"
  by (simp add: demoSession_eq game_defs Let_def initialState_def
      demoA_def demoB_def demoC_def activityText_def)

text \<open>
  C10 (amended). Every call of \<^verbatim>\<open>selectQuadrant\<close> made while there is a current
  activity schedules one advance, and nothing cancels or merges pending advances (the
  resets keep them as well). When \<^verbatim>\<open>selectQuadrant\<close> is called \<open>k\<close> times on
  item \<open>i\<close> of \<open>n\<close>, every call is scored against item \<open>i\<close> and \<open>k\<close> more advances
  are pending; when \<open>j\<close> of the pending advances have fired, the position is
  \<open>min (i + j) (n - 1)\<close>, and the page shows item \<open>i + j\<close> if there is one, the
  completion template otherwise. So each of the items \<open>i + 1\<close>, ..., \<open>i + k - 1\<close>
  that exists is displayed until the next advance fires and is then passed over without
  an answer.
\<close>

theorem repeated_answers_advance_repeatedly:
  assumes "currentActivityIndex s < length (shuffledActivities s)"
    and "j \<le> pendingAdvances s + length qs"
  shows "(\<exists>s'. selectQuadrant q s = Inr s' \<and> pendingAdvances s' = pendingAdvances s + 1) \<and>
         pendingAdvances (resetGame s) = pendingAdvances s \<and>
         pendingAdvances (changeLanguage l s) = pendingAdvances s \<and>
         pendingAdvances (run e (map Select qs) s) = pendingAdvances s + length qs \<and>
         currentActivityIndex (run e (map Select qs) s) = currentActivityIndex s \<and>
         pendingAdvances (run e (map Select qs @ replicate j AdvanceFires) s)
           = pendingAdvances s + length qs - j \<and>
         currentActivityIndex (run e (map Select qs @ replicate j AdvanceFires) s)
           = min (currentActivityIndex s + j) (length (shuffledActivities s) - 1) \<and>
         currentActivityEl (run e (map Select qs @ replicate j AdvanceFires) s)
           = (if j = 0 then currentActivityEl s
              else if currentActivityIndex s + j < length (shuffledActivities s)
              then ActivityShown (activityText (currentLanguage s)
                     (description (shuffledActivities s ! (currentActivityIndex s + j))))
              else GameComplete (score (run e (map Select qs) s)) (totalActivities s)) \<and>
         score (run e (map Select qs @ replicate j AdvanceFires) s)
           = score s + int (length (filter (\<lambda>q. quadrantCode q =
               correctQuadrant (shuffledActivities s ! currentActivityIndex s)) qs))"
proof -
  let ?t = "run e (map Select qs) s"
  note sel = run_selects [OF assms(1), of e qs]
  have ti: "currentActivityIndex ?t < length (shuffledActivities ?t)"
    using sel assms(1) by simp
  have tj: "j \<le> pendingAdvances ?t"
    using sel assms(2) by simp
  note fire = run_fires [OF ti tj, of e]
  have one: "\<exists>s'. selectQuadrant q s = Inr s' \<and> pendingAdvances s' = pendingAdvances s + 1"
    by (simp add: selectQuadrant_active [OF assms(1)])
  show ?thesis
    using one sel fire
    by (simp add: run_append pendingAdvances_resetGame pendingAdvances_changeLanguage)
qed

theorem repeated_answers_advance_repeatedly_witness:
  "currentActivityIndex demoSession < length (shuffledActivities demoSession) \<and>
   (2::nat) \<le> pendingAdvances demoSession + length [Q1, Q1] \<and>
   pendingAdvances (run demoEnv (map Select [Q1, Q1]) demoSession) = 2 \<and>
   pendingAdvances (run demoEnv (map Select [Q1, Q1] @ replicate 2 AdvanceFires) demoSession) = 0 \<and>
   currentActivityIndex (run demoEnv (map Select [Q1, Q1] @ replicate 2 AdvanceFires) demoSession) = 2 \<and>
   currentActivityEl (run demoEnv (map Select [Q1, Q1] @ replicate 2 AdvanceFires) demoSession)
     = ActivityShown (Some ''C'') \<and>
   score (run demoEnv (map Select [Q1, Q1] @ replicate 2 AdvanceFires) demoSession) = 2"
proof -
  have a: "currentActivityIndex demoSession < length (shuffledActivities demoSession)"
    by (simp add: demoSession_eq)
  have b: "(2::nat) \<le> pendingAdvances demoSession + length [Q1, Q1]"
    by simp
  have f: "currentActivityIndex demoSession = 0" "pendingAdvances demoSession = 0"
    "score demoSession = 0" "currentLanguage demoSession = ''en''"
    "shuffledActivities demoSession = [demoA, demoB, demoC]"
    by (simp_all add: demoSession_eq)
  have c: "activityText ''en'' (description demoC) = Some ''C''"
    "correctQuadrant demoA = ''q1''"
    by (simp_all add: activityText_def demoC_def demoA_def)
  from repeated_answers_advance_repeatedly [OF a b, of Q1 "''pt''" demoEnv]
  show ?thesis
    using a b by (simp add: f c)
qed

section \<open>Score and position over a session\<close>

lemma score_step_mono:
  assumes "case ev of Select q \<Rightarrow> True | AdvanceFires \<Rightarrow> True | _ \<Rightarrow> False"
  shows "score s \<le> score (snd (handle e ev s))"
proof (cases ev)
  case (Select q)
  then show ?thesis
    by (cases "currentActivityIndex s < length (shuffledActivities s)")
       (simp_all add: selectQuadrant_active, simp add: selectQuadrant_def)
next
  case AdvanceFires
  then show ?thesis by (simp add: score_advanceFires)
qed (use assms in simp_all)

lemma score_run_mono:
  "answersAndAdvances evs \<Longrightarrow> score s \<le> score (run e evs s)"
proof (induction evs arbitrary: s)
  case Nil
  then show ?case by simp
next
  case (Cons ev evs)
  from Cons.prems
  have ev: "case ev of Select q \<Rightarrow> True | AdvanceFires \<Rightarrow> True | _ \<Rightarrow> False"
    and rest: "answersAndAdvances evs"
    by (simp_all add: answersAndAdvances_def)
  have "score s \<le> score (snd (handle e ev s))"
    by (rule score_step_mono [OF ev])
  also have "\<dots> \<le> score (run e evs (snd (handle e ev s)))"
    by (rule Cons.IH [OF rest])
  finally show ?case by simp
qed

lemma answerAndAdvance_snoc:
  "answerAndAdvance (qs @ [q]) = answerAndAdvance qs @ [Select q, AdvanceFires]"
  by (simp add: answerAndAdvance_def)

lemma pair_step:
  assumes "currentActivityIndex s < length (shuffledActivities s)"
    and "pendingAdvances s = 0"
  shows "shuffledActivities (run e [Select q, AdvanceFires] s) = shuffledActivities s \<and>
         pendingAdvances (run e [Select q, AdvanceFires] s) = 0 \<and>
         currentActivityIndex (run e [Select q, AdvanceFires] s)
           = min (Suc (currentActivityIndex s)) (length (shuffledActivities s) - 1) \<and>
         score (run e [Select q, AdvanceFires] s) \<le> score s + 1"
proof -
  let ?t = "run e (map Select [q]) s"
  note sel = run_selects [OF assms(1), of e "[q]"]
  have ti: "currentActivityIndex ?t < length (shuffledActivities ?t)"
    using sel assms(1) by simp
  have tj: "1 \<le> pendingAdvances ?t"
    using sel by simp
  note fire = run_fires [OF ti tj, of e]
  have "run e [Select q, AdvanceFires] s = run e (replicate 1 AdvanceFires) ?t"
    by simp
  then show ?thesis
    using sel fire assms(2) by simp
qed

lemma pairs_invariant:
  assumes "shuffledActivities s0 \<noteq> []" and "currentActivityIndex s0 = 0"
    and "score s0 = 0" and "pendingAdvances s0 = 0"
  shows "shuffledActivities (run e (answerAndAdvance qs) s0) = shuffledActivities s0 \<and>
         pendingAdvances (run e (answerAndAdvance qs) s0) = 0 \<and>
         currentActivityIndex (run e (answerAndAdvance qs) s0)
           = min (length qs) (length (shuffledActivities s0) - 1) \<and>
         score (run e (answerAndAdvance qs) s0) \<le> int (length qs)"
proof (induction qs rule: rev_induct)
  case Nil
  then show ?case using assms by (simp add: answerAndAdvance_def)
next
  case (snoc q qs)
  let ?t = "run e (answerAndAdvance qs) s0"
  have n0: "0 < length (shuffledActivities s0)" using assms(1) by simp
  have ih: "shuffledActivities ?t = shuffledActivities s0"
    "currentActivityIndex ?t = min (length qs) (length (shuffledActivities s0) - 1)"
    using snoc.IH by simp_all
  have ti: "currentActivityIndex ?t < length (shuffledActivities ?t)"
    unfolding ih using n0 by arith
  have tp: "pendingAdvances ?t = 0"
    using snoc.IH by simp
  note p = pair_step [OF ti tp, of e q]
  have r: "run e (answerAndAdvance (qs @ [q])) s0 = run e [Select q, AdvanceFires] ?t"
    by (simp only: answerAndAdvance_snoc run_append)
  have ix: "min (Suc (currentActivityIndex ?t)) (length (shuffledActivities ?t) - 1)
      = min (length (qs @ [q])) (length (shuffledActivities s0) - 1)"
    unfolding ih by simp
  show ?case
    unfolding r using p snoc.IH ix by simp
qed


text \<open>
  The position does not reach the number of items answered: when the last item has
  been answered and its advance has fired, \<^verbatim>\<open>currentActivityIndex\<close> is still the
  index of the last item. After three correct answers to three activities the score is
  3 and the position is 2.
\<close>

theorem score_exceeds_position_counterexample:
  "score (run demoEnv (answerAndAdvance [Q1, Q2, Q3]) demoSession) = 3 \<and>
   currentActivityIndex (run demoEnv (answerAndAdvance [Q1, Q2, Q3]) demoSession) = 2 \<and>
   \<not> score (run demoEnv (answerAndAdvance [Q1, Q2, Q3]) demoSession)
       \<le> int (currentActivityIndex (run demoEnv (answerAndAdvance [Q1, Q2, Q3]) demoSession))"
  by (simp add: answerAndAdvance_def demoSession_eq game_defs Let_def
      demoA_def demoB_def demoC_def activityText_def)

text \<open>
  C2 (amended). From a fresh session (an order that is not empty, position 0, score 0,
  no advance pending): over every sequence of answers and advances the score is never
  negative and never decreases; after \<open>k\<close> pairs of an answer and its advance the score
  is at most \<open>k\<close> and the position is \<open>min k (n - 1)\<close> for \<open>n\<close> activities; hence the
  score is at most the position as long as fewer than \<open>n\<close> items have been answered.
\<close>

theorem score_bounded_by_answers:
  assumes "shuffledActivities s0 \<noteq> []" and "currentActivityIndex s0 = 0"
    and "score s0 = 0" and "pendingAdvances s0 = 0"
  shows "(answersAndAdvances ops \<and> answersAndAdvances further \<longrightarrow>
            0 \<le> score (run e ops s0) \<and>
            score (run e ops s0) \<le> score (run e (ops @ further) s0)) \<and>
         score (run e (answerAndAdvance qs) s0) \<le> int (length qs) \<and>
         currentActivityIndex (run e (answerAndAdvance qs) s0)
           = min (length qs) (length (shuffledActivities s0) - 1) \<and>
         (length qs < length (shuffledActivities s0) \<longrightarrow>
            score (run e (answerAndAdvance qs) s0)
              \<le> int (currentActivityIndex (run e (answerAndAdvance qs) s0)))"
proof -
  have mono: "answersAndAdvances ops \<and> answersAndAdvances further \<longrightarrow>
            0 \<le> score (run e ops s0) \<and>
            score (run e ops s0) \<le> score (run e (ops @ further) s0)"
  proof
    assume h: "answersAndAdvances ops \<and> answersAndAdvances further"
    have "score s0 \<le> score (run e ops s0)"
      using h by (simp add: score_run_mono)
    moreover have "score (run e ops s0) \<le> score (run e further (run e ops s0))"
      using h by (simp add: score_run_mono)
    ultimately show "0 \<le> score (run e ops s0) \<and>
        score (run e ops s0) \<le> score (run e (ops @ further) s0)"
      using assms(3) by (simp add: run_append)
  qed
  note inv = pairs_invariant [OF assms, of e qs]
  have pos: "length qs < length (shuffledActivities s0) \<longrightarrow>
            score (run e (answerAndAdvance qs) s0)
              \<le> int (currentActivityIndex (run e (answerAndAdvance qs) s0))"
  proof
    assume "length qs < length (shuffledActivities s0)"
    then have "min (length qs) (length (shuffledActivities s0) - 1) = length qs"
      by arith
    then show "score (run e (answerAndAdvance qs) s0)
              \<le> int (currentActivityIndex (run e (answerAndAdvance qs) s0))"
      using inv by simp
  qed
  show ?thesis using mono inv pos by simp
qed

theorem score_bounded_by_answers_witness:
  "shuffledActivities demoSession \<noteq> [] \<and> currentActivityIndex demoSession = 0 \<and>
   score demoSession = 0 \<and> pendingAdvances demoSession = 0 \<and>
   answersAndAdvances [Select Q1, Select Q1, AdvanceFires] \<and> answersAndAdvances [Select Q2] \<and>
   0 \<le> score (run demoEnv [Select Q1, Select Q1, AdvanceFires] demoSession) \<and>
   score (run demoEnv [Select Q1, Select Q1, AdvanceFires] demoSession)
     \<le> score (run demoEnv ([Select Q1, Select Q1, AdvanceFires] @ [Select Q2]) demoSession) \<and>
   length [Q1, Q1] < length (shuffledActivities demoSession) \<and>
   score (run demoEnv (answerAndAdvance [Q1, Q1]) demoSession) \<le> int (length [Q1, Q1]) \<and>
   currentActivityIndex (run demoEnv (answerAndAdvance [Q1, Q1]) demoSession) = 2 \<and>
   score (run demoEnv (answerAndAdvance [Q1, Q1]) demoSession)
     \<le> int (currentActivityIndex (run demoEnv (answerAndAdvance [Q1, Q1]) demoSession))"
proof -
  have a: "shuffledActivities demoSession \<noteq> []" and b: "currentActivityIndex demoSession = 0"
    and c: "score demoSession = 0" and d: "pendingAdvances demoSession = 0"
    and n: "length [Q1, Q1] < length (shuffledActivities demoSession)"
    by (simp_all add: demoSession_eq)
  have o: "answersAndAdvances [Select Q1, Select Q1, AdvanceFires] \<and> answersAndAdvances [Select Q2]"
    by (simp add: answersAndAdvances_def)
  have l: "length (shuffledActivities demoSession) = 3"
    by (simp add: demoSession_eq)
  from score_bounded_by_answers [OF a b c d,
      of "[Select Q1, Select Q1, AdvanceFires]" "[Select Q2]" demoEnv "[Q1, Q1]"] o n
  have "0 \<le> score (run demoEnv [Select Q1, Select Q1, AdvanceFires] demoSession)"
    "score (run demoEnv [Select Q1, Select Q1, AdvanceFires] demoSession)
     \<le> score (run demoEnv ([Select Q1, Select Q1, AdvanceFires] @ [Select Q2]) demoSession)"
    "score (run demoEnv (answerAndAdvance [Q1, Q1]) demoSession) \<le> int (length [Q1, Q1])"
    "currentActivityIndex (run demoEnv (answerAndAdvance [Q1, Q1]) demoSession) = 2"
    "score (run demoEnv (answerAndAdvance [Q1, Q1]) demoSession)
     \<le> int (currentActivityIndex (run demoEnv (answerAndAdvance [Q1, Q1]) demoSession))"
    by (simp_all add: l)
  with a b c d o n show ?thesis by blast
qed

section \<open>The completion screen is never reached without activities\<close>

lemma fisherYates_length:
  "b < length h \<Longrightarrow> fisherYates rnd c b k h = (h', c') \<Longrightarrow>
   length h' = length h \<and> length (h' ! b) = length (h ! b)"
proof (induction k arbitrary: h c)
  case 0
  then show ?case by simp
next
  case (Suc k)
  let ?xs = "h ! b"
  let ?j = "nat \<lfloor>rnd c * real (Suc k + 1)\<rfloor>"
  let ?h1 = "h[b := ?xs[Suc k := ?xs ! ?j, ?j := ?xs ! Suc k]]"
  have run: "fisherYates rnd (Suc c) b k ?h1 = (h', c')"
    using Suc.prems(2) by (simp add: Let_def)
  have b1: "b < length ?h1" using Suc.prems(1) by simp
  from Suc.IH [OF b1 run] Suc.prems(1) show ?case by simp
qed

lemma length_shuffledCopy: "length (fst (shuffledCopy rnd c xs)) = length xs"
proof -
  obtain h2 c2 where fy:
    "fisherYates rnd c 2 (length xs - 1) [xs, xs, xs] = (h2, c2)"
    by (cases "fisherYates rnd c 2 (length xs - 1) [xs, xs, xs]")
  have "length (h2 ! 2) = length ([xs, xs, xs] ! 2)"
    using fisherYates_length [OF _ fy] by simp
  then show ?thesis
    using fy by (simp add: shuffledCopy_def shuffleArray_def spread_def numeral_2_eq_2)
qed

lemma sessionInvariant_initial: "sessionInvariant initialState"
  by (simp add: sessionInvariant_def initialState_def)

lemma sessionInvariant_store:
  assumes "acts \<noteq> []"
  shows "sessionInvariant
           (startGame (s\<lparr> activities := acts, totalActivities := length acts,
                          shuffledActivities := fst (shuffledCopy rnd c acts),
                          randomCalls := snd (shuffledCopy rnd c acts) \<rparr>))"
proof -
  let ?s1 = "s\<lparr> activities := acts, totalActivities := length acts,
                shuffledActivities := fst (shuffledCopy rnd c acts),
                randomCalls := snd (shuffledCopy rnd c acts) \<rparr>"
  have ne: "fst (shuffledCopy rnd c acts) \<noteq> []"
    using length_shuffledCopy [of rnd c acts] assms by auto
  have "startGame ?s1 = ?s1\<lparr> currentActivityIndex := 0,
          currentActivityEl := ActivityShown (activityText (currentLanguage s)
              (description (fst (shuffledCopy rnd c acts) ! 0))),
          feedbackEl := FeedbackHidden \<rparr>"
    using assms ne by (simp add: startGame_def displayActivity_def)
  then show ?thesis
    using assms by (simp add: sessionInvariant_def length_shuffledCopy)
qed

lemma sessionInvariant_loadActivities:
  assumes "sessionInvariant s" and "embeddedData e \<noteq> []"
  shows "sessionInvariant (loadActivities e outcome s)"
proof (cases outcome)
  case (Fetched acts)
  show ?thesis
  proof (cases "acts = []")
    case True
    with Fetched assms(1) show ?thesis
      by (simp add: loadActivities_def sessionInvariant_def)
  next
    case False
    with Fetched sessionInvariant_store [OF False, where s = s and rnd = "mathRandom e" and c = "randomCalls s"]
    show ?thesis
      by (simp add: loadActivities_def split_beta)
  qed
next
  case FetchBlocked
  with sessionInvariant_store [OF assms(2), where s = s and rnd = "mathRandom e" and c = "randomCalls s"]
  show ?thesis
    by (simp add: loadActivities_def useEmbeddedData_def split_beta)
next
  case FetchFailed
  with assms(1) show ?thesis
    by (simp add: loadActivities_def sessionInvariant_def)
qed

lemma sessionInvariant_loadTranslations:
  "sessionInvariant s \<Longrightarrow> sessionInvariant (loadTranslations e outcome s)"
  by (simp add: loadTranslations_def sessionInvariant_def Let_def
      split: translations_fetch.splits option.splits view.splits)

lemma sessionInvariant_selectQuadrant:
  assumes "sessionInvariant s" and "selectQuadrant q s = Inr s'"
  shows "sessionInvariant s'"
proof (cases "currentActivityIndex s < length (shuffledActivities s)")
  case True
  then have "activities s \<noteq> []" using assms(1) by (auto simp: sessionInvariant_def)
  with assms True show ?thesis
    by (auto simp: selectQuadrant_active sessionInvariant_def split: view.splits)
next
  case False
  with assms(2) show ?thesis by (simp add: selectQuadrant_def)
qed

lemma sessionInvariant_advanceFires:
  assumes "sessionInvariant s"
  shows "sessionInvariant (advanceFires s)"
proof (cases "pendingAdvances s = 0")
  case True
  with assms show ?thesis by (simp add: advanceFires_def)
next
  case False
  then have ne: "activities s \<noteq> []" using assms by (auto simp: sessionInvariant_def)
  show ?thesis
  proof (cases "Suc (currentActivityIndex s) < length (shuffledActivities s)")
    case True
    have p: "pendingAdvances s > 0" using False by simp
    show ?thesis
      unfolding advanceFires_in_range [OF p True]
      using assms ne by (simp add: sessionInvariant_def)
  next
    case out: False
    have p: "pendingAdvances s > 0" using False by simp
    show ?thesis
      unfolding advanceFires_at_end [OF p out]
      using assms ne by (simp add: sessionInvariant_def)
  qed
qed

lemma sessionInvariant_resetGame:
  assumes "sessionInvariant s"
  shows "sessionInvariant (resetGame s)"
proof (cases "activities s = []")
  case True
  with assms show ?thesis
    by (simp add: resetGame_def startGame_def sessionInvariant_def split: view.splits)
next
  case False
  then have "shuffledActivities s \<noteq> []" using assms by (auto simp: sessionInvariant_def)
  from resetGame_loaded [OF False this] assms False show ?thesis
    by (simp add: sessionInvariant_def)
qed

lemma sessionInvariant_changeLanguage:
  assumes "sessionInvariant s"
  shows "sessionInvariant (changeLanguage l s)"
proof (cases "translationsTbl s l = None")
  case True
  with assms show ?thesis
    by (simp add: changeLanguage_no_table sessionInvariant_def split: view.splits)
next
  case supported: False
  show ?thesis
  proof (cases "activities s = []")
    case True
    with assms supported show ?thesis
      by (auto simp: changeLanguage_table resetGameToLanguage_def Let_def sessionInvariant_def
          split: view.splits)
  next
    case False
    then have "shuffledActivities s \<noteq> []" using assms by (auto simp: sessionInvariant_def)
    from changeLanguage_loaded [OF False this supported] assms False show ?thesis
      by (simp add: sessionInvariant_def)
  qed
qed

lemma sessionInvariant_run:
  assumes "embeddedData e \<noteq> []"
  shows "sessionInvariant s \<Longrightarrow> sessionInvariant (run e evs s)"
proof (induction evs arbitrary: s)
  case Nil
  then show ?case by simp
next
  case (Cons ev evs)
  have "sessionInvariant (snd (handle e ev s))"
  proof (cases ev)
    case (TranslationsArrive outcome)
    then show ?thesis using Cons.prems by (simp add: sessionInvariant_loadTranslations)
  next
    case (ActivitiesArrive outcome)
    then show ?thesis using Cons.prems assms by (simp add: sessionInvariant_loadActivities)
  next
    case (Select q)
    then show ?thesis using Cons.prems
      by (auto split: sum.splits dest: sessionInvariant_selectQuadrant)
  next
    case AdvanceFires
    then show ?thesis using Cons.prems by (simp add: sessionInvariant_advanceFires)
  next
    case PlayAgain
    then show ?thesis using Cons.prems by (simp add: sessionInvariant_resetGame)
  next
    case (LanguageChosen l)
    then show ?thesis
      using Cons.prems sessionInvariant_changeLanguage [of s l]
      by (simp add: changeLanguage_def)
  qed
  then show ?case by (simp add: Cons.IH)
qed

lemma mset_shuffledCopy:
  assumes "\<forall>c. 0 \<le> rnd c \<and> rnd c < 1"
  shows "mset (fst (shuffledCopy rnd c xs)) = mset xs"
proof -
  obtain h2 c2 where fy:
    "fisherYates rnd c 2 (length xs - 1) [xs, xs, xs] = (h2, c2)"
    by (cases "fisherYates rnd c 2 (length xs - 1) [xs, xs, xs]")
  have "length xs - 1 < length ([xs, xs, xs] ! 2) \<or> length xs - 1 = 0"
    by (simp add: numeral_2_eq_2) arith
  from fisherYates_spec [OF assms _ this fy]
  have "mset (h2 ! 2) = mset ([xs, xs, xs] ! 2)" by simp
  then show ?thesis
    using fy by (simp add: shuffledCopy_def shuffleArray_def spread_def numeral_2_eq_2)
qed

lemma demo_in_range: "\<forall>c. 0 \<le> mathRandom demoEnv c \<and> mathRandom demoEnv c < 1"
  by (simp add: demoEnv_def)

text \<open>Forty activities of the first quadrant, loaded in the small environment.\<close>

lemma forty_loaded:
  "loadActivities demoEnv (Fetched (replicate 40 demoA)) initialState =
     initialState\<lparr> activities := replicate 40 demoA, totalActivities := 40,
       shuffledActivities := replicate 40 demoA,
       randomCalls := snd (shuffledCopy (mathRandom demoEnv) 0 (replicate 40 demoA)),
       currentActivityEl := ActivityShown (Some ''A'') \<rparr>"
proof -
  let ?ys = "fst (shuffledCopy (mathRandom demoEnv) 0 (replicate 40 demoA))"
  have m: "mset ?ys = mset (replicate 40 demoA)"
    by (rule mset_shuffledCopy [OF demo_in_range])
  then have "length ?ys = 40" "set ?ys \<subseteq> {demoA}"
    using mset_eq_length [OF m] mset_eq_setD [OF m] by simp_all
  then have ys: "?ys = replicate 40 demoA"
    by (intro replicate_eqI) auto
  have ne: "replicate 40 demoA \<noteq> []" by simp
  have first: "replicate 40 demoA ! 0 = demoA" by simp
  show ?thesis
    using ys ne first
    by (simp add: loadActivities_def split_beta startGame_def displayActivity_def
        initialState_def activityText_def demoA_def)
qed

text \<open>
  When every activity has the same correct quadrant, answering each item once scores
  the answers that name it, and the advance of the last item fills in the completion
  template.
\<close>

lemma pair_step_exact:
  assumes "currentActivityIndex s < length (shuffledActivities s)"
    and "pendingAdvances s = 0"
  shows "score (run e [Select q, AdvanceFires] s) =
           score s + (if quadrantCode q =
             correctQuadrant (shuffledActivities s ! currentActivityIndex s) then 1 else 0) \<and>
         totalActivities (run e [Select q, AdvanceFires] s) = totalActivities s \<and>
         (\<not> Suc (currentActivityIndex s) < length (shuffledActivities s) \<longrightarrow>
            currentActivityEl (run e [Select q, AdvanceFires] s) =
              GameComplete (score (run e [Select q, AdvanceFires] s)) (totalActivities s))"
proof -
  let ?t = "run e (map Select [q]) s"
  note sel = run_selects [OF assms(1), of e "[q]"]
  have ti: "currentActivityIndex ?t < length (shuffledActivities ?t)"
    using sel assms(1) by simp
  have tj: "1 \<le> pendingAdvances ?t"
    using sel by simp
  note fire = run_fires [OF ti tj, of e]
  have "run e [Select q, AdvanceFires] s = run e (replicate 1 AdvanceFires) ?t"
    by simp
  then show ?thesis
    using sel fire assms(2) by simp
qed

lemma pairs_exact:
  assumes "shuffledActivities s0 \<noteq> []" and "currentActivityIndex s0 = 0"
    and "score s0 = 0" and "pendingAdvances s0 = 0"
    and "\<forall>a \<in> set (shuffledActivities s0). correctQuadrant a = c"
  shows "score (run e (answerAndAdvance qs) s0) =
           int (length (filter (\<lambda>q. quadrantCode q = c) qs)) \<and>
         totalActivities (run e (answerAndAdvance qs) s0) = totalActivities s0 \<and>
         (qs \<noteq> [] \<and> length (shuffledActivities s0) \<le> length qs \<longrightarrow>
            currentActivityEl (run e (answerAndAdvance qs) s0) =
              GameComplete (score (run e (answerAndAdvance qs) s0)) (totalActivities s0))"
proof (induction qs rule: rev_induct)
  case Nil
  then show ?case using assms by (simp add: answerAndAdvance_def)
next
  case (snoc q qs)
  let ?t = "run e (answerAndAdvance qs) s0"
  note inv = pairs_invariant [OF assms(1-4), of e qs]
  have n0: "0 < length (shuffledActivities s0)" using assms(1) by simp
  have sh: "shuffledActivities ?t = shuffledActivities s0"
    and ix: "currentActivityIndex ?t = min (length qs) (length (shuffledActivities s0) - 1)"
    and tp: "pendingAdvances ?t = 0"
    using inv by simp_all
  have ti: "currentActivityIndex ?t < length (shuffledActivities ?t)"
    unfolding sh ix using n0 by arith
  have cq: "correctQuadrant (shuffledActivities ?t ! currentActivityIndex ?t) = c"
    using assms(5) ti sh by (metis nth_mem)
  have r: "run e (answerAndAdvance (qs @ [q])) s0 = run e [Select q, AdvanceFires] ?t"
    by (simp only: answerAndAdvance_snoc run_append)
  note p = pair_step_exact [OF ti tp, of e q]
  have last: "length (shuffledActivities s0) \<le> length (qs @ [q]) \<longrightarrow>
      \<not> Suc (currentActivityIndex ?t) < length (shuffledActivities ?t)"
    unfolding sh ix by simp arith
  show ?case
    unfolding r using p snoc.IH cq last sh by simp
qed

text \<open>
  The percentage is not the exactly rounded one. Forty activities of the first quadrant,
  each answered once, 23 of them rightly: the completion template shows 23 of 40 and
  57 per cent, where 23 / 40 of 100 is 57.5, which rounds to 58. The quotient is rounded
  down to the nearest double, and its product with 100 falls below the half.
\<close>

theorem accuracy_is_double_arithmetic_counterexample:
  "currentActivityEl (run demoEnv
      (ActivitiesArrive (Fetched (replicate 40 demoA))
        # answerAndAdvance (replicate 23 Q1 @ replicate 17 Q2)) initialState)
     = GameComplete 23 40 \<and>
   accuracyReported (run demoEnv
      (ActivitiesArrive (Fetched (replicate 40 demoA))
        # answerAndAdvance (replicate 23 Q1 @ replicate 17 Q2)) initialState)
     = Some (Num 57) \<and>
   \<lfloor>real_of_int 23 / real 40 * 100 + 1 / 2\<rfloor> = 58"
proof -
  let ?s0 = "loadActivities demoEnv (Fetched (replicate 40 demoA)) initialState"
  let ?qs = "replicate 23 Q1 @ replicate 17 Q2"
  let ?evs = "ActivitiesArrive (Fetched (replicate 40 demoA)) # answerAndAdvance ?qs"
  have f: "shuffledActivities ?s0 = replicate 40 demoA" "currentActivityIndex ?s0 = 0"
    "score ?s0 = 0" "pendingAdvances ?s0 = 0" "totalActivities ?s0 = 40"
    unfolding forty_loaded by (simp_all add: initialState_def)
  have a: "shuffledActivities ?s0 \<noteq> []" unfolding f by simp
  have c: "\<forall>a \<in> set (shuffledActivities ?s0). correctQuadrant a = ''q1''"
    unfolding f by (simp add: demoA_def)
  have r: "run demoEnv ?evs initialState = run demoEnv (answerAndAdvance ?qs) ?s0"
    by simp
  have n: "int (length (filter (\<lambda>q. quadrantCode q = ''q1'') ?qs)) = 23"
    by simp
  from pairs_exact [OF a f(2) f(3) f(4) c, of demoEnv ?qs]
  have v: "currentActivityEl (run demoEnv ?evs initialState) = GameComplete 23 40"
    unfolding r n f by simp
  have e: "embeddedData demoEnv \<noteq> []" by (simp add: demoEnv_def)
  have "sessionInvariant (run demoEnv ?evs initialState)"
    by (rule sessionInvariant_run [OF e sessionInvariant_initial])
  with v have "accuracyReported (run demoEnv ?evs initialState) = Some (accuracy 23 40)"
    by (simp add: sessionInvariant_def)
  moreover have "accuracy 23 40 = Num 57"
    by (simp add: double_simps)
  moreover have "\<lfloor>real_of_int 23 / real 40 * 100 + 1 / 2\<rfloor> = (58::int)"
    by simp
  ultimately show ?thesis using v by simp
qed

text \<open>
  C6 (amended). Whatever events have been handled since the page was opened, a
  completion template on the page was filled in by \<^verbatim>\<open>endGame\<close> with the current
  total, which is positive, so the division was never by zero, and the percentage
  reported with it is \<^verbatim>\<open>Math.round((score / totalActivities) * 100)\<close> as doubles
  compute it: the quotient rounded to the nearest double, its product with 100 rounded
  to the nearest double, and of that the nearest integer, a half upwards. The guard is
  upstream of \<^verbatim>\<open>endGame\<close>: an empty \<^verbatim>\<open>activities\<close> array makes
  \<^verbatim>\<open>loadActivities\<close> show its error box and start nothing, \<^verbatim>\<open>startGame\<close>
  returns at once without activities, and \<^verbatim>\<open>selectQuadrant\<close> throws before it can
  schedule the advance that would end the game. The embedded data the script falls
  back to is not empty.
\<close>

theorem completion_has_positive_total:
  assumes "embeddedData e \<noteq> []"
  shows "(\<forall>sc tot. currentActivityEl (run e evs initialState) = GameComplete sc tot \<longrightarrow>
            tot = totalActivities (run e evs initialState) \<and> 0 < tot \<and>
            accuracyReported (run e evs initialState)
              = Some (Num \<lfloor>toDouble (toDouble (real_of_int sc / real tot) * 100) + 1 / 2\<rfloor>)) \<and>
         currentActivityEl (endGame s) = GameComplete (score s) (totalActivities s) \<and>
         accuracyReported (endGame s) = Some (accuracy (score s) (totalActivities s)) \<and>
         loadActivities e (Fetched []) s = s\<lparr> currentActivityEl := LoadError \<rparr> \<and>
         (activities s = [] \<longrightarrow> startGame s = s) \<and>
         (shuffledActivities s = [] \<longrightarrow> selectQuadrant q s = Inl TypeError)"
proof -
  have "sessionInvariant (run e evs initialState)"
    by (rule sessionInvariant_run [OF assms sessionInvariant_initial])
  then have "\<forall>sc tot. currentActivityEl (run e evs initialState) = GameComplete sc tot \<longrightarrow>
            tot = totalActivities (run e evs initialState) \<and> 0 < tot \<and>
            accuracyReported (run e evs initialState)
              = Some (Num \<lfloor>toDouble (toDouble (real_of_int sc / real tot) * 100) + 1 / 2\<rfloor>)"
    by (auto simp: sessionInvariant_def accuracy_def)
  then show ?thesis
    by (simp add: endGame_def loadActivities_def startGame_def selectQuadrant_def)
qed

theorem completion_has_positive_total_witness:
  "embeddedData demoEnv \<noteq> [] \<and>
   currentActivityEl (run demoEnv
      ([TranslationsArrive TranslationsFailed, ActivitiesArrive (Fetched [demoA, demoB, demoC])]
        @ answerAndAdvance [Q1, Q1, Q3]) initialState) = GameComplete 2 3 \<and>
   accuracyReported (run demoEnv
      ([TranslationsArrive TranslationsFailed, ActivitiesArrive (Fetched [demoA, demoB, demoC])]
        @ answerAndAdvance [Q1, Q1, Q3]) initialState) = Some (Num 67) \<and>
   activities initialState = [] \<and> startGame initialState = initialState \<and>
   selectQuadrant Q1 initialState = Inl TypeError"
proof -
  let ?evs = "[TranslationsArrive TranslationsFailed, ActivitiesArrive (Fetched [demoA, demoB, demoC])]
        @ answerAndAdvance [Q1, Q1, Q3]"
  have e: "embeddedData demoEnv \<noteq> []" by (simp add: demoEnv_def)
  have v: "currentActivityEl (run demoEnv ?evs initialState) = GameComplete 2 3"
    unfolding run_append demoSession_def [symmetric]
    by (simp add: answerAndAdvance_def demoSession_eq game_defs Let_def
        demoA_def demoB_def demoC_def activityText_def)
  have i: "activities initialState = []" "shuffledActivities initialState = []"
    by (simp_all add: initialState_def)
  from completion_has_positive_total [OF e, of ?evs initialState Q1] v i
  have "accuracyReported (run demoEnv ?evs initialState)
      = Some (Num \<lfloor>toDouble (toDouble (real_of_int 2 / real 3) * 100) + 1 / 2\<rfloor>)"
    and "startGame initialState = initialState"
    and "selectQuadrant Q1 initialState = Inl TypeError"
    by simp_all
  moreover have "\<lfloor>toDouble (toDouble (real_of_int 2 / real 3) * 100) + 1 / 2\<rfloor> = (67::int)"
    by (simp add: toDouble_def binaryExponent_def roundHalfEven_def bitLength.simps Let_def)
  ultimately show ?thesis using e v i by simp
qed

end
